theory Spec2Isabelle
  imports Main "HOL-Library.Word" "HOL-Library.Sublist"
begin

unbundle bit_operations_syntax

section \<open>The Go library functions the beacon calls\<close>

text \<open>
  Go strings and byte slices are sequences of bytes.  A \<open>string\<close> of HOL is a list of
  8-bit characters, so \<open>length\<close> is Go's \<open>len\<close>.  Bytes that are computed with
  (the identity generator's masks) are \<open>8 word\<close>.
\<close>

type_synonym byte = "8 word"

text \<open>
  \<open>strings.Index(s, substr)\<close>: the position of the first occurrence of \<open>substr\<close> in
  \<open>s\<close>; Go's \<open>-1\<close> is \<open>None\<close>.
\<close>

fun Index :: "string \<Rightarrow> string \<Rightarrow> nat option" where
  "Index [] substr = (if substr = [] then Some 0 else None)"
| "Index (c # s) substr =
     (if prefix substr (c # s) then Some 0 else map_option Suc (Index s substr))"

text \<open>
  \<open>strings.Replace(s, old, new, n)\<close> for a non-empty \<open>old\<close> and \<open>n \<ge> 0\<close>: the first
  \<open>n\<close> occurrences of \<open>old\<close>, found from left to right, are replaced.  The beacon
  calls it with \<open>n = 1\<close> and the literals \<open>http://\<close> and \<open>https://\<close>.
\<close>

fun Replace :: "string \<Rightarrow> string \<Rightarrow> string \<Rightarrow> nat \<Rightarrow> string" where
  "Replace s old new 0 = s"
| "Replace s old new (Suc n) =
     (case Index s old of
        None \<Rightarrow> s
      | Some i \<Rightarrow> take i s @ new @ Replace (drop (i + length old) s) old new n)"

text \<open>
  \<open>strings.Trim(s, cutset)\<close> for an ASCII cutset: all leading and all trailing bytes
  that are in the cutset are removed.
\<close>

definition Trim :: "string \<Rightarrow> string \<Rightarrow> string" where
  "Trim s cutset =
     rev (dropWhile (\<lambda>c. c \<in> set cutset) (rev (dropWhile (\<lambda>c. c \<in> set cutset) s)))"

text \<open>
  \<open>strings.SplitN(s, sep, n)\<close> for a non-empty \<open>sep\<close> and \<open>n \<ge> 0\<close>: no substring
  for \<open>n = 0\<close>, otherwise at most \<open>n\<close> substrings, the last one being the unsplit
  remainder.
\<close>

fun SplitN :: "string \<Rightarrow> string \<Rightarrow> nat \<Rightarrow> string list" where
  "SplitN s sep 0 = []"
| "SplitN s sep (Suc 0) = [s]"
| "SplitN s sep (Suc (Suc n)) =
     (case Index s sep of
        None \<Rightarrow> [s]
      | Some i \<Rightarrow> take i s # SplitN (drop (i + length sep) s) sep (Suc n))"

text \<open>
  \<open>strconv.FormatInt(i, 10)\<close>: the decimal digits of \<open>i\<close>, most significant first,
  after a minus sign when \<open>i\<close> is negative.
\<close>

definition digit_char :: "nat \<Rightarrow> char" where
  "digit_char d = ''0123456789'' ! d"

fun decimal :: "nat \<Rightarrow> string" where
  "decimal n = (if n < 10 then [digit_char n] else decimal (n div 10) @ [digit_char (n mod 10)])"

declare decimal.simps [simp del]

definition FormatInt :: "int \<Rightarrow> string" where
  "FormatInt i = (if i < 0 then CHR ''-'' # decimal (nat (- i)) else decimal (nat i))"

text \<open>
  \<open>hex.EncodeToString\<close>: two characters of the lowercase table for every byte, the
  high nibble first (\<open>hextable[v>>4]\<close>, \<open>hextable[v&0x0f]\<close>).
\<close>

definition hextable :: string where
  "hextable = ''0123456789abcdef''"

fun EncodeToString :: "byte list \<Rightarrow> string" where
  "EncodeToString [] = []"
| "EncodeToString (v # vs) =
     hextable ! unat (drop_bit 4 v) # hextable ! unat (v AND 0x0f) # EncodeToString vs"

section \<open>Data of the beacon\<close>

datatype error = Error string

fun Error_msg :: "error \<Rightarrow> string" where
  "Error_msg (Error m) = m"

record Config =
  MeasurementID :: string
  APISecret :: string

text \<open>The static files read at start-up.\<close>

record Assets =
  pixel :: "byte list"
  badge :: "byte list"
  badgeGif :: "byte list"
  badgeFlat :: "byte list"
  badgeFlatGif :: "byte list"

record GA4Event =
  Name :: string
  Params :: "string \<rightharpoonup> string"

record GA4Payload =
  ClientID :: string
  Events :: "GA4Event list"

record Cookie =
  CookieName :: string
  CookieValue :: string
  CookiePath :: string

text \<open>
  \<open>url.Values\<close> is a Go map from a key to the list of its values.  The handler ranges
  over it, so it is an association list whose order is the (arbitrary) order of the
  iteration; its keys are distinct, as those of a Go map are.
\<close>

type_synonym Values = "(string \<times> string list) list"

definition has_key :: "Values \<Rightarrow> string \<Rightarrow> bool" where
  "has_key query key = (map_of query key \<noteq> None)"

fun Values_Set :: "string \<Rightarrow> string \<Rightarrow> Values \<Rightarrow> Values" where
  "Values_Set key v [] = [(key, [v])]"
| "Values_Set key v ((k, vs) # q) =
     (if k = key then (k, [v]) # q else (k, vs) # Values_Set key v q)"

text \<open>
  The incoming request, as \<open>net/http\<close> hands it to the handler: the path of the URL,
  the query as \<open>url.ParseQuery\<close> returns it for \<open>r.URL.RawQuery\<close> (its error is
  discarded by the handler), the headers, the cookies and the remote address.
\<close>

record Request =
  URL_Path :: string
  URL_Query :: Values
  ReqHeader :: "string \<rightharpoonup> string"
  ReqCookies :: "Cookie list"
  RemoteAddr :: string

text \<open>\<open>r.Header.Get(key)\<close> is the empty string when the header is absent.\<close>

definition Header_Get :: "Request \<Rightarrow> string \<Rightarrow> string" where
  "Header_Get r key = (case ReqHeader r key of None \<Rightarrow> [] | Some v \<Rightarrow> v)"

definition ErrNoCookie :: error where
  "ErrNoCookie = Error ''http: named cookie not present''"

text \<open>\<open>r.Cookie(name)\<close>: the first cookie of that name, or \<open>ErrNoCookie\<close>.\<close>

definition Request_Cookie :: "Request \<Rightarrow> string \<Rightarrow> error + Cookie" where
  "Request_Cookie r name =
     (if name = [] then Inl ErrNoCookie
      else case find (\<lambda>c. CookieName c = name) (ReqCookies r) of
             None \<Rightarrow> Inl ErrNoCookie
           | Some c \<Rightarrow> Inr c)"

text \<open>The request that the dispatcher builds for the analytics endpoint.\<close>

record OutRequest =
  Method :: string
  URL :: string
  OutBody :: string
  OutHeader :: "(string \<times> string) list"

text \<open>
  What the handler cannot decide by itself is a parameter: the entropy source
  (an error, or the bytes it delivers by position), the three readings of the clock
  (\<open>time.Now()\<close> as Unix seconds, formatted with \<open>time.RFC3339\<close> and formatted with
  \<open>http.TimeFormat\<close>), the outcome of \<open>json.Marshal\<close>, the outcome of \<open>client.Do\<close>
  (an error, or the status of the response) and the template of the account page
  (the chunks it writes, and its error).
\<close>

record Env =
  entropy :: "error + (nat \<Rightarrow> byte)"
  time_Unix :: int
  time_RFC3339 :: string
  time_HTTP :: string
  json_Marshal :: "GA4Payload \<Rightarrow> error + string"
  client_Do :: "OutRequest \<Rightarrow> error + string"
  ExecuteTemplate :: "string \<Rightarrow> string \<Rightarrow> byte list list \<times> error option"

text \<open>
  The response writer: the headers and cookies of the response, the status once the
  header is written, and the chunks written to the body.  The first \<open>Write\<close> writes the
  header with status 200; once the header is written, later changes of the headers do not
  reach the client.
\<close>

record ResponseWriter =
  RespHeader :: "string \<rightharpoonup> string"
  RespCookies :: "Cookie list"
  Status :: "nat option"
  Body :: "byte list list"

text \<open>
  The state a request runs in: the response writer, the lines logged, the requests
  handed to \<open>client.Do\<close>, and the payloads handed to the dispatcher \<open>sendToGA\<close>.
\<close>

record World =
  W :: ResponseWriter
  Logged :: "string list"
  Posted :: "OutRequest list"
  Dispatched :: "GA4Payload list"

definition Header_Set :: "string \<Rightarrow> string \<Rightarrow> World \<Rightarrow> World" where
  "Header_Set key v s =
     (if Status (W s) = None then s\<lparr>W := (W s)\<lparr>RespHeader := (RespHeader (W s))(key \<mapsto> v)\<rparr>\<rparr>
      else s)"

definition SetCookie :: "Cookie \<Rightarrow> World \<Rightarrow> World" where
  "SetCookie c s =
     (if Status (W s) = None then s\<lparr>W := (W s)\<lparr>RespCookies := RespCookies (W s) @ [c]\<rparr>\<rparr>
      else s)"

definition WriteHeader :: "nat \<Rightarrow> World \<Rightarrow> World" where
  "WriteHeader code s =
     (if Status (W s) = None then s\<lparr>W := (W s)\<lparr>Status := Some code\<rparr>\<rparr> else s)"

definition Write :: "byte list \<Rightarrow> World \<Rightarrow> World" where
  "Write b s =
     (let s = WriteHeader 200 s in s\<lparr>W := (W s)\<lparr>Body := Body (W s) @ [b]\<rparr>\<rparr>)"

text \<open>
  \<open>http.Redirect\<close> sets the \<open>Location\<close> header and writes the header with the given
  status (the short note it adds to the body of a GET is left out).  \<open>http.Error\<close>
  sets the content type, writes the header with the given status and writes the message
  followed by a newline.
\<close>

definition Redirect :: "string \<Rightarrow> nat \<Rightarrow> World \<Rightarrow> World" where
  "Redirect url code s = WriteHeader code (Header_Set ''Location'' url s)"

definition http_Error :: "string \<Rightarrow> nat \<Rightarrow> World \<Rightarrow> World" where
  "http_Error msg code s =
     Write (map of_char msg @ [10])
       (WriteHeader code
         (Header_Set ''X-Content-Type-Options'' ''nosniff''
           (Header_Set ''Content-Type'' ''text/plain; charset=utf-8'' s)))"

definition log_Printf :: "string \<Rightarrow> World \<Rightarrow> World" where
  "log_Printf line s = s\<lparr>Logged := Logged s @ [line]\<rparr>"

section \<open>The beacon\<close>

text \<open>
  \<open>rand.Read(b)\<close> fills the whole buffer, or fails.
\<close>

definition rand_Read :: "Env \<Rightarrow> byte list \<Rightarrow> error + byte list" where
  "rand_Read env b =
     (case entropy env of
        Inl err \<Rightarrow> Inl err
      | Inr src \<Rightarrow> Inr (map src [0..<length b]))"

text \<open>
  \<open>generateUUID(cid *string) error\<close>: the result is the error and the string that
  \<open>cid\<close> points to afterwards.
\<close>

definition generateUUID :: "Env \<Rightarrow> string \<Rightarrow> error option \<times> string" where
  "generateUUID env cid =
     (let b = replicate 16 (0 :: byte) in
      case rand_Read env b of
        Inl err \<Rightarrow> (Some err, cid)
      | Inr b \<Rightarrow>
          (let b = b[8 := (b ! 8 OR 0x80) AND 0xBF];
               b = b[6 := (b ! 6 OR 0x40) AND 0x4F]
           in (None, EncodeToString b)))"

definition generateSessionID :: "Env \<Rightarrow> string" where
  "generateSessionID env = (let now = time_Unix env in FormatInt now)"

definition sendToGA ::
  "Env \<Rightarrow> Config \<Rightarrow> string \<Rightarrow> string \<Rightarrow> string \<Rightarrow> GA4Payload \<Rightarrow> World \<Rightarrow> error option \<times> World" where
  "sendToGA env config ua ip cid payload s0 =
     (let s = s0\<lparr>Dispatched := Dispatched s0 @ [payload]\<rparr> in
      case json_Marshal env payload of
        Inl err \<Rightarrow> (Some err, log_Printf (''Error marshaling JSON: '' @ Error_msg err) s)
      | Inr jsonPayload \<Rightarrow>
          (let beaconURL =
                 ''https://www.google-analytics.com/mp/collect?measurement_id=''
                   @ MeasurementID config @ ''&api_secret='' @ APISecret config;
               req = \<lparr>Method = ''POST'', URL = beaconURL, OutBody = jsonPayload,
                      OutHeader = [(''User-Agent'', ua), (''Content-Type'', ''application/json'')]\<rparr>;
               s = s\<lparr>Posted := Posted s @ [req]\<rparr>
           in case client_Do env req of
                Inl err \<Rightarrow> (Some err, log_Printf (''GA collector POST error: '' @ Error_msg err) s)
              | Inr status \<Rightarrow>
                  (None,
                   log_Printf (''Reported payload: '' @ jsonPayload)
                     (log_Printf
                        (''GA collector status: '' @ status @ '', cid: '' @ cid @ '', ip: '' @ ip)
                        s))))"

definition reserved :: "string list" where
  "reserved = [''referer'', ''pixel'', ''gif'', ''flat'', ''flat-gif'', ''useReferer'']"

fun isReservedParam_loop :: "string \<Rightarrow> string list \<Rightarrow> bool" where
  "isReservedParam_loop param [] = False"
| "isReservedParam_loop param (r # rs) =
     (if param = r then True else isReservedParam_loop param rs)"

definition isReservedParam :: "string \<Rightarrow> bool" where
  "isReservedParam param = isReservedParam_loop param reserved"

text \<open>
  \<open>logHit\<close> builds the event, adds the custom parameters in a loop over the query, and
  hands the payload to the dispatcher.  The payload it builds is named on its own.
\<close>

definition logHit_add_custom :: "string \<times> string list \<Rightarrow> GA4Event \<Rightarrow> GA4Event" where
  "logHit_add_custom kv event =
     (case kv of (key, values) \<Rightarrow>
        if length values > 0 \<and> \<not> isReservedParam key
        then event\<lparr>Params := (Params event)(''custom_'' @ key \<mapsto> values ! 0)\<rparr>
        else event)"

definition logHit_payload :: "Env \<Rightarrow> Values \<Rightarrow> string \<Rightarrow> string \<Rightarrow> string \<Rightarrow> GA4Payload" where
  "logHit_payload env query ua ip cid =
     (let event = \<lparr>Name = ''page_view'',
                   Params = [''session_id'' \<mapsto> generateSessionID env,
                             ''user_agent'' \<mapsto> ua,
                             ''ip_address'' \<mapsto> ip,
                             ''timestamp'' \<mapsto> time_RFC3339 env]\<rparr>;
          event = fold logHit_add_custom query event
      in \<lparr>ClientID = cid, Events = [event]\<rparr>)"

definition logHit ::
  "Env \<Rightarrow> Config \<Rightarrow> string list \<Rightarrow> Values \<Rightarrow> string \<Rightarrow> string \<Rightarrow> string \<Rightarrow> World \<Rightarrow> error option \<times> World" where
  "logHit env config params query ua ip cid s =
     sendToGA env config ua ip cid (logHit_payload env query ua ip cid) s"

text \<open>
  The pieces of \<open>handler\<close> that the properties below speak about: the segments of the
  trimmed path, the query after the Referer header is added to it, and the segments after
  the \<open>useReferer\<close> rewrite.
\<close>

definition handler_params :: "Request \<Rightarrow> string list" where
  "handler_params r = SplitN (Trim (URL_Path r) ''/'') ''/'' 2"

definition handler_query :: "Request \<Rightarrow> Values" where
  "handler_query r =
     (let query = URL_Query r; refOrg = Header_Get r ''Referer''
      in if refOrg \<noteq> [] then Values_Set ''referer'' refOrg query else query)"

definition handler_referer :: "Request \<Rightarrow> string" where
  "handler_referer r =
     (let refOrg = Header_Get r ''Referer''
      in Replace (Replace refOrg ''http://'' [] 1) ''https://'' [] 1)"

definition handler_useReferer :: "Request \<Rightarrow> string list" where
  "handler_useReferer r =
     (let params = handler_params r; query = handler_query r; refOrg = Header_Get r ''Referer''
      in if has_key query ''useReferer'' then
           if length refOrg \<noteq> 0 then
             (let referer = handler_referer r
              in if length referer \<noteq> 0
                 then SplitN (Trim (URL_Path r) ''/'' @ ''/'' @ referer) ''/'' 2
                 else params)
           else params
         else params)"

text \<open>The identity of the client: from the cookie, or generated and set as a cookie.\<close>

definition handler_cid :: "Env \<Rightarrow> Request \<Rightarrow> string list \<Rightarrow> World \<Rightarrow> string \<times> World" where
  "handler_cid env r params s =
     (case Request_Cookie r ''cid'' of
        Inl err \<Rightarrow>
          (case generateUUID env [] of
             (Some err, cid) \<Rightarrow>
               (cid, log_Printf (''Failed to generate client UUID: '' @ Error_msg err) s)
           | (None, cid) \<Rightarrow>
               (cid,
                SetCookie \<lparr>CookieName = ''cid'', CookieValue = cid, CookiePath = ''/'' @ params ! 0\<rparr>
                  (log_Printf (''Generated new client UUID: '' @ cid) s)))
      | Inr cookie \<Rightarrow>
          (CookieValue cookie, log_Printf (''Existing CID found: '' @ CookieValue cookie) s))"

text \<open>The pixel or badge, by the first of the flags that is a key of the query.\<close>

definition handler_write :: "Assets \<Rightarrow> Values \<Rightarrow> World \<Rightarrow> World" where
  "handler_write assets query s =
     (if has_key query ''pixel'' then
        Write (pixel assets) (Header_Set ''Content-Type'' ''image/gif'' s)
      else if has_key query ''gif'' then
        Write (badgeGif assets) (Header_Set ''Content-Type'' ''image/gif'' s)
      else if has_key query ''flat'' then
        Write (badgeFlat assets) (Header_Set ''Content-Type'' ''image/svg+xml'' s)
      else if has_key query ''flat-gif'' then
        Write (badgeFlatGif assets) (Header_Set ''Content-Type'' ''image/gif'' s)
      else
        Write (badge assets) (Header_Set ''Content-Type'' ''image/svg+xml'' s))"

definition handler :: "Env \<Rightarrow> Config \<Rightarrow> Assets \<Rightarrow> Request \<Rightarrow> World \<Rightarrow> World" where
  "handler env config assets r s =
     (let params = handler_params r;
          query = handler_query r;
          refOrg = Header_Get r ''Referer''
      in if length (params ! 0) = 0 then
           Redirect ''https://github.com/igrigorik/ga-beacon'' 302 s
         else
           (let params = handler_useReferer r
            in if length params = 1 then
                 (case ExecuteTemplate env (params ! 0) refOrg of
                    (chunks, Some err) \<Rightarrow>
                      log_Printf (''Cannot execute template: '' @ Error_msg err)
                        (http_Error ''could not show account page'' 500 (fold Write chunks s))
                  | (chunks, None) \<Rightarrow> fold Write chunks s)
               else
                 (case handler_cid env r params s of
                    (cid, s) \<Rightarrow>
                      (let s =
                             (if length cid \<noteq> 0 then
                                (let cacheUntil = time_HTTP env;
                                     s = Header_Set ''Cache-Control''
                                           ''no-cache, no-store, must-revalidate, private'' s;
                                     s = Header_Set ''Expires'' cacheUntil s;
                                     s = Header_Set ''CID'' cid s
                                 in snd (logHit env config params query
                                           (Header_Get r ''User-Agent'') (RemoteAddr r) cid s))
                              else s)
                       in handler_write assets query s))))"

text \<open>The state before the handler runs: nothing written, logged or sent.\<close>

definition World0 :: World where
  "World0 = \<lparr>W = \<lparr>RespHeader = Map.empty, RespCookies = [], Status = None, Body = []\<rparr>,
             Logged = [], Posted = [], Dispatched = []\<rparr>"

text \<open>
  The words of the specification, to compare the handler with: stripping the scheme
  prefix of the referer, and the pixel or badge with its content type by the priority of
  the flags among the keys of the query.
\<close>

definition spec_strip_scheme :: "string \<Rightarrow> string" where
  "spec_strip_scheme s =
     (if prefix ''http://'' s then drop 7 s
      else if prefix ''https://'' s then drop 8 s
      else s)"

definition spec_badge :: "Assets \<Rightarrow> string set \<Rightarrow> byte list \<times> string" where
  "spec_badge assets keys =
     (if ''pixel'' \<in> keys then (pixel assets, ''image/gif'')
      else if ''gif'' \<in> keys then (badgeGif assets, ''image/gif'')
      else if ''flat'' \<in> keys then (badgeFlat assets, ''image/svg+xml'')
      else if ''flat-gif'' \<in> keys then (badgeFlatGif assets, ''image/gif'')
      else (badge assets, ''image/svg+xml''))"

text \<open>
  The value of a string of decimal digits, to compare \<open>FormatInt\<close> with.
\<close>

definition spec_decimal_value :: "string \<Rightarrow> nat" where
  "spec_decimal_value s = foldl (\<lambda>a c. 10 * a + (of_char c - 48)) 0 s"

section \<open>Inputs for running the definitions\<close>

definition example_config :: Config where
  "example_config = \<lparr>MeasurementID = ''G-TEST'', APISecret = ''secret''\<rparr>"

definition example_assets :: Assets where
  "example_assets =
     \<lparr>pixel = [1], badge = [2], badgeGif = [3], badgeFlat = [4], badgeFlatGif = [5]\<rparr>"

definition example_request :: "string \<Rightarrow> Values \<Rightarrow> (string \<rightharpoonup> string) \<Rightarrow> Cookie list \<Rightarrow> Request" where
  "example_request path query hdr cookies =
     \<lparr>URL_Path = path, URL_Query = query, ReqHeader = hdr, ReqCookies = cookies,
      RemoteAddr = ''192.0.2.1:4711''\<rparr>"

definition example_env :: Env where
  "example_env =
     \<lparr>entropy = Inr (\<lambda>i. of_nat (17 * i)),
      time_Unix = 1730,
      time_RFC3339 = ''1970-01-01T00:28:50Z'',
      time_HTTP = ''Thu, 01 Jan 1970 00:28:50 GMT'',
      json_Marshal = (\<lambda>p. Inr ''{}''),
      client_Do = (\<lambda>req. Inr ''204 No Content''),
      ExecuteTemplate = (\<lambda>account referer. ([], None))\<rparr>"

definition example_env_no_entropy :: Env where
  "example_env_no_entropy = example_env\<lparr>entropy := Inl (Error ''entropy source unavailable'')\<rparr>"

text \<open>
  A request with a \<open>cid\<close> cookie, a Referer and a custom parameter, and one without
  cookies; an environment in which the POST fails, and one in which the marshalling
  fails.
\<close>

definition example_tracked :: Request where
  "example_tracked =
     example_request ''/octocat/readme'' [(''flat'', [[]]), (''src'', [''newsletter''])]
       [''User-Agent'' \<mapsto> ''curl/8'', ''Referer'' \<mapsto> ''https://example.com/docs'']
       [\<lparr>CookieName = ''cid'', CookieValue = ''abc'', CookiePath = []\<rparr>]"

definition example_untracked :: Request where
  "example_untracked = example_request ''/octocat/readme'' [(''pixel'', [[]])] Map.empty []"

definition example_env_post_fails :: Env where
  "example_env_post_fails =
     example_env\<lparr>json_Marshal := (\<lambda>p. Inr ''{}''), client_Do := (\<lambda>req. Inl (Error ''timeout''))\<rparr>"

definition example_env_marshal_fails :: Env where
  "example_env_marshal_fails =
     example_env\<lparr>json_Marshal := (\<lambda>p. Inl (Error ''unsupported type'')),
                  client_Do := (\<lambda>req. Inr ''204 No Content'')\<rparr>"

section \<open>Facts about the string functions\<close>

lemma Index_single:
  "Index s [c] = (if c \<in> set s then Some (length (takeWhile (\<lambda>x. x \<noteq> c) s)) else None)"
  by (induction s) auto

lemma drop_Suc_takeWhile:
  "c \<in> set s \<Longrightarrow> drop (Suc (length (takeWhile (\<lambda>x. x \<noteq> c) s))) s = tl (dropWhile (\<lambda>x. x \<noteq> c) s)"
  by (induction s) auto

lemma SplitN_slash_2:
  "SplitN s ''/'' 2 =
     (if CHR ''/'' \<in> set s
      then [takeWhile (\<lambda>x. x \<noteq> CHR ''/'') s, tl (dropWhile (\<lambda>x. x \<noteq> CHR ''/'') s)]
      else [s])"
  by (simp add: numeral_2_eq_2 Index_single drop_Suc_takeWhile takeWhile_eq_take [symmetric])

lemma Trim_take:
  "\<exists>k. Trim s cs = take k (dropWhile (\<lambda>c. c \<in> set cs) s)"
  unfolding Trim_def
  by (metis dropWhile_eq_drop rev_drop rev_rev_ident)

lemma Trim_head:
  assumes "Trim s cs \<noteq> []"
  shows "hd (Trim s cs) \<notin> set cs"
proof -
  let ?u = "dropWhile (\<lambda>c. c \<in> set cs) s"
  obtain k where k: "Trim s cs = take k ?u" using Trim_take by blast
  with assms have "?u \<noteq> []" and "k \<noteq> 0" by auto
  then have "hd (Trim s cs) = hd ?u" using k by (cases k; cases ?u) auto
  moreover have "hd ?u \<notin> set cs" using \<open>?u \<noteq> []\<close> hd_dropWhile by blast
  ultimately show ?thesis by simp
qed

lemma Index_None_iff: "Index s sub = None \<longleftrightarrow> \<not> sublist sub s"
  by (induction s) (auto simp: sublist_Cons_right)

lemma Replace_once_absent:
  assumes "\<not> sublist old s"
  shows "Replace s old new 1 = s"
proof -
  have "Index s old = None" using assms by (simp add: Index_None_iff)
  then show ?thesis by simp
qed

lemma Index_prefix: "Index (old @ s) old = Some 0"
proof (cases "old @ s")
  case Nil
  then show ?thesis by simp
next
  case (Cons a list)
  have "prefix old (a # list)" unfolding Cons [symmetric] by simp
  then have "Index (a # list) old = Some 0" by simp
  then show ?thesis unfolding Cons .
qed

lemma Replace_once_prefix: "Replace (old @ s) old [] 1 = s"
  by (simp add: Index_prefix)

lemma no_http_in_https:
  assumes "\<not> sublist ''http://'' rest"
  shows "\<not> sublist ''http://'' (''https://'' @ rest)"
proof -
  have "Index rest ''http://'' = None" using assms by (simp add: Index_None_iff)
  then have "Index (''https://'' @ rest) ''http://'' = None" by simp
  then show ?thesis using Index_None_iff by blast
qed

lemma SplitN_append_slash:
  "SplitN (t @ CHR ''/'' # x) ''/'' 2 =
     (if CHR ''/'' \<in> set t
      then [takeWhile (\<lambda>c. c \<noteq> CHR ''/'') t, tl (dropWhile (\<lambda>c. c \<noteq> CHR ''/'') t) @ CHR ''/'' # x]
      else [t, x])"
proof (cases "CHR ''/'' \<in> set t")
  case True
  then have "dropWhile (\<lambda>c. c \<noteq> CHR ''/'') t \<noteq> []" by (simp add: dropWhile_eq_Nil_conv)
  then show ?thesis using True
    by (simp add: SplitN_slash_2 takeWhile_append dropWhile_append)
next
  case False
  then show ?thesis
    by (simp add: SplitN_slash_2 takeWhile_append dropWhile_append)
qed

section \<open>The identity generator\<close>

lemma length_EncodeToString: "length (EncodeToString b) = 2 * length b"
  by (induction b) simp_all

lemma hi_nibble: "unat (drop_bit 4 (v :: byte)) = unat v div 16"
  by (simp add: drop_bit_eq_div unat_div)

lemma lo_nibble: "unat ((v :: byte) AND 0x0f) = unat v mod 16"
proof -
  have "v AND 0x0f = take_bit 4 v"
    by (simp add: take_bit_eq_mask mask_eq_exp_minus_1)
  then show ?thesis
    by (simp add: take_bit_eq_mod unat_mod)
qed

lemma hi_nibble_lt: "unat (drop_bit 4 (v :: byte)) < 16"
proof -
  have "unat v < 256" using unsigned_less [of v, where 'a = nat] by simp
  then show ?thesis by (simp add: hi_nibble)
qed

lemma lo_nibble_lt: "unat ((v :: byte) AND 0x0f) < 16"
  by (simp add: lo_nibble)

lemma hextable_nth_in: "k < 16 \<Longrightarrow> hextable ! k \<in> set hextable"
proof -
  assume "k < 16"
  then have "k < length hextable" by (simp add: hextable_def)
  then show ?thesis by (rule nth_mem)
qed

lemma set_EncodeToString: "set (EncodeToString b) \<subseteq> set hextable"
  by (induction b) (simp_all add: hextable_nth_in hi_nibble_lt lo_nibble_lt)

lemma nth_EncodeToString:
  "i < length b \<Longrightarrow>
     EncodeToString b ! (2 * i) = hextable ! (unat (b ! i) div 16) \<and>
     EncodeToString b ! (2 * i + 1) = hextable ! (unat (b ! i) mod 16)"
proof (induction b arbitrary: i)
  case Nil
  then show ?case by simp
next
  case (Cons v vs)
  show ?case
  proof (cases i)
    case 0
    then show ?thesis by (simp add: hi_nibble lo_nibble)
  next
    case (Suc j)
    then have "j < length vs" using Cons.prems by simp
    from Cons.IH [OF this] show ?thesis using Suc by simp
  qed
qed

lemma variant_bounds:
  "0x80 \<le> ((x :: byte) OR 0x80) AND 0xBF \<and> (x OR 0x80) AND 0xBF \<le> 0xBF"
proof
  show "(x OR 0x80) AND 0xBF \<le> 0xBF" by (rule word_and_le1)
  have "(x OR 0x80) AND 0xBF = (x AND 0xBF) OR (0x80 AND 0xBF)"
    by (rule bit.conj_disj_distrib2)
  also have "\<dots> = 0x80 OR (x AND 0xBF)"
    by (simp add: or.commute)
  finally show "0x80 \<le> (x OR 0x80) AND 0xBF"
    by (simp add: le_word_or2)
qed

lemma version_bounds:
  "0x40 \<le> ((x :: byte) OR 0x40) AND 0x4F \<and> (x OR 0x40) AND 0x4F \<le> 0x4F"
proof
  show "(x OR 0x40) AND 0x4F \<le> 0x4F" by (rule word_and_le1)
  have "(x OR 0x40) AND 0x4F = (x AND 0x4F) OR (0x40 AND 0x4F)"
    by (rule bit.conj_disj_distrib2)
  also have "\<dots> = 0x40 OR (x AND 0x4F)"
    by (simp add: or.commute)
  finally show "0x40 \<le> (x OR 0x40) AND 0x4F"
    by (simp add: le_word_or2)
qed

lemma generateUUID_Inl:
  "entropy env = Inl err \<Longrightarrow> generateUUID env cid = (Some err, cid)"
  by (simp add: generateUUID_def rand_Read_def)

lemma generateUUID_Inr:
  "entropy env = Inr src \<Longrightarrow>
     generateUUID env cid =
       (None, EncodeToString
          ((map src [0..<16])[8 := (src 8 OR 0x80) AND 0xBF, 6 := (src 6 OR 0x40) AND 0x4F]))"
  by (simp add: generateUUID_def rand_Read_def Let_def)

lemma generateUUID_Inr_cid:
  assumes "entropy env = Inr src"
  shows "\<exists>new. generateUUID env cid = (None, new) \<and> length new = 32 \<and> set new \<subseteq> set hextable"
  using generateUUID_Inr [OF assms, of cid]
  by (simp add: length_EncodeToString set_EncodeToString)

text \<open>
  C6.  The identity generator reads 16 bytes from the entropy source, forces byte 8 into
  the range 0x80 to 0xBF and byte 6 into the range 0x40 to 0x4F, leaves the other
  bytes as read, and returns the 32 characters of their lowercase hexadecimal encoding
  (two characters for every byte, the high nibble first).  It returns an error exactly when
  the read of the entropy source fails, and then the identity is left as it was.
\<close>

theorem generateUUID_identity:
  "(\<forall>err. entropy env = Inl err \<longrightarrow> generateUUID env cid = (Some err, cid)) \<and>
   (\<forall>src. entropy env = Inr src \<longrightarrow>
      (\<exists>b. generateUUID env cid = (None, EncodeToString b)
         \<and> length b = 16
         \<and> (\<forall>i<16. i \<noteq> 6 \<longrightarrow> i \<noteq> 8 \<longrightarrow> b ! i = src i)
         \<and> b ! 8 = (src 8 OR 0x80) AND 0xBF \<and> 0x80 \<le> b ! 8 \<and> b ! 8 \<le> 0xBF
         \<and> b ! 6 = (src 6 OR 0x40) AND 0x4F \<and> 0x40 \<le> b ! 6 \<and> b ! 6 \<le> 0x4F
         \<and> length (EncodeToString b) = 32
         \<and> set (EncodeToString b) \<subseteq> set ''0123456789abcdef''
         \<and> (\<forall>i<16. EncodeToString b ! (2 * i) = ''0123456789abcdef'' ! (unat (b ! i) div 16)
                  \<and> EncodeToString b ! (2 * i + 1) = ''0123456789abcdef'' ! (unat (b ! i) mod 16)))) \<and>
   ((fst (generateUUID env cid) \<noteq> None) = (\<exists>err. entropy env = Inl err))"
proof (intro conjI allI impI)
  fix err assume "entropy env = Inl err"
  then show "generateUUID env cid = (Some err, cid)" by (rule generateUUID_Inl)
next
  fix src assume src: "entropy env = Inr src"
  let ?b = "(map src [0..<16])[8 := (src 8 OR 0x80) AND 0xBF, 6 := (src 6 OR 0x40) AND 0x4F]"
  have l16: "length ?b = 16" by simp
  have b8: "?b ! 8 = (src 8 OR 0x80) AND 0xBF" by simp
  have b6: "?b ! 6 = (src 6 OR 0x40) AND 0x4F" by simp
  have enc: "\<forall>i<16. EncodeToString ?b ! (2 * i) = ''0123456789abcdef'' ! (unat (?b ! i) div 16)
                  \<and> EncodeToString ?b ! (2 * i + 1) = ''0123456789abcdef'' ! (unat (?b ! i) mod 16)"
    using nth_EncodeToString [of _ ?b] by (simp only: l16 hextable_def) blast
  have chars: "set (EncodeToString ?b) \<subseteq> set ''0123456789abcdef''"
    using set_EncodeToString [of ?b] by (simp only: hextable_def)
  have len: "length (EncodeToString ?b) = 32"
    by (simp add: length_EncodeToString)
  have others: "\<forall>i<16. i \<noteq> 6 \<longrightarrow> i \<noteq> 8 \<longrightarrow> ?b ! i = src i"
    by simp
  show "\<exists>b. generateUUID env cid = (None, EncodeToString b)
         \<and> length b = 16
         \<and> (\<forall>i<16. i \<noteq> 6 \<longrightarrow> i \<noteq> 8 \<longrightarrow> b ! i = src i)
         \<and> b ! 8 = (src 8 OR 0x80) AND 0xBF \<and> 0x80 \<le> b ! 8 \<and> b ! 8 \<le> 0xBF
         \<and> b ! 6 = (src 6 OR 0x40) AND 0x4F \<and> 0x40 \<le> b ! 6 \<and> b ! 6 \<le> 0x4F
         \<and> length (EncodeToString b) = 32
         \<and> set (EncodeToString b) \<subseteq> set ''0123456789abcdef''
         \<and> (\<forall>i<16. EncodeToString b ! (2 * i) = ''0123456789abcdef'' ! (unat (b ! i) div 16)
                  \<and> EncodeToString b ! (2 * i + 1) = ''0123456789abcdef'' ! (unat (b ! i) mod 16))"
    apply (rule exI [of _ ?b])
    apply (intro conjI)
               apply (rule generateUUID_Inr [OF src])
              apply (rule l16)
             apply (rule others)
            apply (rule b8)
           apply (simp only: b8 variant_bounds)
          apply (simp only: b8 variant_bounds)
         apply (rule b6)
        apply (simp only: b6 version_bounds)
       apply (simp only: b6 version_bounds)
      apply (rule len)
     apply (rule chars)
    apply (rule enc)
    done
next
  show "(fst (generateUUID env cid) \<noteq> None) = (\<exists>err. entropy env = Inl err)"
    by (cases "entropy env") (simp_all add: generateUUID_Inl generateUUID_Inr)
qed

theorem generateUUID_identity_witness:
  "generateUUID example_env_no_entropy ''old'' = (Some (Error ''entropy source unavailable''), ''old'') \<and>
   generateUUID example_env [] = (None, ''00112233445546778899aabbccddeeff'') \<and>
   (\<exists>b. generateUUID example_env [] = (None, EncodeToString b) \<and> length b = 16
        \<and> 0x80 \<le> b ! 8 \<and> b ! 8 \<le> 0xBF \<and> 0x40 \<le> b ! 6 \<and> b ! 6 \<le> 0x4F
        \<and> length (EncodeToString b) = 32)"
proof -
  have fail: "entropy example_env_no_entropy = Inl (Error ''entropy source unavailable'')"
    by (simp add: example_env_no_entropy_def)
  have ok: "entropy example_env = Inr (\<lambda>i. of_nat (17 * i))"
    by (simp add: example_env_def)
  have run: "generateUUID example_env [] = (None, ''00112233445546778899aabbccddeeff'')"
    by (simp add: example_env_def generateUUID_def rand_Read_def hextable_def upt_rec
          drop_bit_eq_div)
  from generateUUID_identity [of example_env_no_entropy "''old''"] fail
  have 1: "generateUUID example_env_no_entropy ''old'' =
             (Some (Error ''entropy source unavailable''), ''old'')"
    by blast
  from generateUUID_identity [of example_env "[]"] ok
  have 2: "\<exists>b. generateUUID example_env [] = (None, EncodeToString b) \<and> length b = 16
        \<and> 0x80 \<le> b ! 8 \<and> b ! 8 \<le> 0xBF \<and> 0x40 \<le> b ! 6 \<and> b ! 6 \<le> 0x4F
        \<and> length (EncodeToString b) = 32"
    by blast
  from 1 run 2 show ?thesis by blast
qed

section \<open>The query and the state\<close>

lemma map_of_Values_Set:
  "map_of (Values_Set key v q) k = (if k = key then Some [v] else map_of q k)"
  by (induction q) auto

lemma has_key_iff: "has_key q k = (k \<in> fst ` set q)"
  by (simp add: has_key_def map_of_eq_None_iff)

lemma keys_Values_Set:
  "map fst (Values_Set key v q) = (if key \<in> set (map fst q) then map fst q else map fst q @ [key])"
  by (induction q) (auto simp del: set_map)

lemma has_key_Values_Set: "has_key (Values_Set key v q) k = (k = key \<or> has_key q k)"
  by (simp add: has_key_def map_of_Values_Set)

lemma has_key_handler_query:
  "k \<noteq> ''referer'' \<Longrightarrow> has_key (handler_query r) k = (k \<in> fst ` set (URL_Query r))"
proof -
  assume k: "k \<noteq> ''referer''"
  have "has_key (handler_query r) k = has_key (URL_Query r) k"
    using k by (simp add: handler_query_def Let_def has_key_Values_Set)
  then show ?thesis by (simp add: has_key_iff)
qed

lemma distinct_Values_Set:
  "distinct (map fst q) \<Longrightarrow> distinct (map fst (Values_Set key v q))"
  by (simp add: keys_Values_Set del: set_map)

lemma distinct_handler_query:
  "distinct (map fst (URL_Query r)) \<Longrightarrow> distinct (map fst (handler_query r))"
  by (simp add: handler_query_def Let_def distinct_Values_Set)

lemma Header_Set_frame [simp]:
  "Logged (Header_Set k v s) = Logged s" "Posted (Header_Set k v s) = Posted s"
  "Dispatched (Header_Set k v s) = Dispatched s"
  "RespCookies (W (Header_Set k v s)) = RespCookies (W s)"
  "Status (W (Header_Set k v s)) = Status (W s)"
  "Body (W (Header_Set k v s)) = Body (W s)"
  by (simp_all add: Header_Set_def)

lemma Header_Set_header [simp]:
  "Status (W s) = None \<Longrightarrow> RespHeader (W (Header_Set k v s)) = (RespHeader (W s))(k \<mapsto> v)"
  by (simp add: Header_Set_def)

lemma SetCookie_frame [simp]:
  "Logged (SetCookie c s) = Logged s" "Posted (SetCookie c s) = Posted s"
  "Dispatched (SetCookie c s) = Dispatched s"
  "RespHeader (W (SetCookie c s)) = RespHeader (W s)"
  "Status (W (SetCookie c s)) = Status (W s)"
  "Body (W (SetCookie c s)) = Body (W s)"
  by (simp_all add: SetCookie_def)

lemma SetCookie_cookies [simp]:
  "Status (W s) = None \<Longrightarrow> RespCookies (W (SetCookie c s)) = RespCookies (W s) @ [c]"
  by (simp add: SetCookie_def)

lemma log_Printf_frame [simp]:
  "W (log_Printf l s) = W s" "Posted (log_Printf l s) = Posted s"
  "Dispatched (log_Printf l s) = Dispatched s" "Logged (log_Printf l s) = Logged s @ [l]"
  by (simp_all add: log_Printf_def)

lemma WriteHeader_frame [simp]:
  "Logged (WriteHeader n s) = Logged s" "Posted (WriteHeader n s) = Posted s"
  "Dispatched (WriteHeader n s) = Dispatched s"
  "RespHeader (W (WriteHeader n s)) = RespHeader (W s)"
  "RespCookies (W (WriteHeader n s)) = RespCookies (W s)"
  "Body (W (WriteHeader n s)) = Body (W s)"
  "Status (W (WriteHeader n s)) = (case Status (W s) of None \<Rightarrow> Some n | Some m \<Rightarrow> Some m)"
  by (auto simp: WriteHeader_def)

lemma Write_frame [simp]:
  "Logged (Write b s) = Logged s" "Posted (Write b s) = Posted s"
  "Dispatched (Write b s) = Dispatched s"
  "RespHeader (W (Write b s)) = RespHeader (W s)"
  "RespCookies (W (Write b s)) = RespCookies (W s)"
  "Body (W (Write b s)) = Body (W s) @ [b]"
  "Status (W (Write b s)) = (case Status (W s) of None \<Rightarrow> Some 200 | Some m \<Rightarrow> Some m)"
  by (simp_all add: Write_def Let_def)

lemma sendToGA_frame [simp]:
  "W (snd (sendToGA env config ua ip cid p s)) = W s"
  "Dispatched (snd (sendToGA env config ua ip cid p s)) = Dispatched s @ [p]"
  by (simp_all add: sendToGA_def Let_def split: sum.splits)

lemma sendToGA_Posted:
  "Posted (snd (sendToGA env config ua ip cid p s)) =
     (case json_Marshal env p of
        Inl err \<Rightarrow> Posted s
      | Inr js \<Rightarrow> Posted s @
          [\<lparr>Method = ''POST'',
            URL = ''https://www.google-analytics.com/mp/collect?measurement_id=''
                   @ MeasurementID config @ ''&api_secret='' @ APISecret config,
            OutBody = js,
            OutHeader = [(''User-Agent'', ua), (''Content-Type'', ''application/json'')]\<rparr>])"
  by (simp add: sendToGA_def Let_def split: sum.splits)

lemma logHit_frame [simp]:
  "W (snd (logHit env config params q ua ip cid s)) = W s"
  "Dispatched (snd (logHit env config params q ua ip cid s)) = Dispatched s @ [logHit_payload env q ua ip cid]"
  by (simp_all add: logHit_def)

lemma handler_write_frame [simp]:
  "Logged (handler_write assets q s) = Logged s" "Posted (handler_write assets q s) = Posted s"
  "Dispatched (handler_write assets q s) = Dispatched s"
  "RespCookies (W (handler_write assets q s)) = RespCookies (W s)"
  by (simp_all add: handler_write_def)

section \<open>The path segments\<close>

lemma handler_referer_spec:
  assumes "\<not> sublist ''http://'' (spec_strip_scheme (Header_Get r ''Referer''))"
      and "\<not> sublist ''https://'' (spec_strip_scheme (Header_Get r ''Referer''))"
  shows "handler_referer r = spec_strip_scheme (Header_Get r ''Referer'')"
proof -
  let ?ref = "Header_Get r ''Referer''"
  consider (http) rest where "?ref = ''http://'' @ rest"
    | (https) rest where "?ref = ''https://'' @ rest"
    | (none) "\<not> prefix ''http://'' ?ref" "\<not> prefix ''https://'' ?ref"
    by (auto simp: prefix_def)
  then show ?thesis
  proof cases
    case http
    then have s: "spec_strip_scheme ?ref = rest" by (simp add: spec_strip_scheme_def)
    have 1: "Replace ?ref ''http://'' [] 1 = rest"
      unfolding http by (rule Replace_once_prefix)
    have 2: "Replace rest ''https://'' [] 1 = rest"
      using assms(2) unfolding s by (rule Replace_once_absent)
    show ?thesis by (simp only: handler_referer_def Let_def 1 2 s)
  next
    case https
    then have s: "spec_strip_scheme ?ref = rest" by (simp add: spec_strip_scheme_def)
    have "\<not> sublist ''http://'' ?ref"
      unfolding https using assms(1) s no_http_in_https by simp
    then have 1: "Replace ?ref ''http://'' [] 1 = ?ref" by (rule Replace_once_absent)
    have 2: "Replace ?ref ''https://'' [] 1 = rest"
      unfolding https by (rule Replace_once_prefix)
    show ?thesis by (simp only: handler_referer_def Let_def 1 2 s)
  next
    case none
    then have s: "spec_strip_scheme ?ref = ?ref" by (simp add: spec_strip_scheme_def)
    have 1: "Replace ?ref ''http://'' [] 1 = ?ref"
      using assms(1) unfolding s by (rule Replace_once_absent)
    have 2: "Replace ?ref ''https://'' [] 1 = ?ref"
      using assms(2) unfolding s by (rule Replace_once_absent)
    show ?thesis by (simp only: handler_referer_def Let_def 1 2 s)
  qed
qed

lemma handler_params_cases:
  "handler_params r =
     (if CHR ''/'' \<in> set (Trim (URL_Path r) ''/'')
      then [takeWhile (\<lambda>c. c \<noteq> CHR ''/'') (Trim (URL_Path r) ''/''),
            tl (dropWhile (\<lambda>c. c \<noteq> CHR ''/'') (Trim (URL_Path r) ''/''))]
      else [Trim (URL_Path r) ''/''])"
  by (simp add: handler_params_def SplitN_slash_2)

lemma handler_useReferer_cases:
  "handler_useReferer r =
     (if ''useReferer'' \<in> fst ` set (URL_Query r) \<and> Header_Get r ''Referer'' \<noteq> []
         \<and> handler_referer r \<noteq> []
      then SplitN (Trim (URL_Path r) ''/'' @ CHR ''/'' # handler_referer r) ''/'' 2
      else handler_params r)"
  by (simp add: handler_useReferer_def Let_def has_key_handler_query)

lemma takeWhile_absent: "c \<notin> set t \<Longrightarrow> takeWhile (\<lambda>x. x \<noteq> c) t = t"
  by (induction t) auto

lemma takeWhile_upto: "takeWhile (\<lambda>x. x \<noteq> c) (t @ c # x) = takeWhile (\<lambda>x. x \<noteq> c) t"
  by (induction t) auto

lemma SplitN_first: "SplitN s ''/'' 2 ! 0 = takeWhile (\<lambda>c. c \<noteq> CHR ''/'') s"
  by (simp add: SplitN_slash_2 takeWhile_absent)

lemma handler_params_first:
  "handler_params r ! 0 = takeWhile (\<lambda>c. c \<noteq> CHR ''/'') (Trim (URL_Path r) ''/'')"
  by (simp only: handler_params_def SplitN_first)

lemma handler_useReferer_first: "handler_useReferer r ! 0 = handler_params r ! 0"
  by (simp add: handler_useReferer_cases SplitN_first takeWhile_upto handler_params_first)

lemma handler_params_two:
  assumes "length (handler_params r) = 2"
  shows "handler_params r ! 0 \<noteq> []"
proof -
  let ?t = "Trim (URL_Path r) ''/''"
  have slash: "CHR ''/'' \<in> set ?t"
    using assms by (simp add: handler_params_cases split: if_splits)
  then have ne: "?t \<noteq> []" by auto
  then have "hd ?t \<notin> set ''/''" by (rule Trim_head)
  then have "hd ?t \<noteq> CHR ''/''" by simp
  then have "takeWhile (\<lambda>c. c \<noteq> CHR ''/'') ?t \<noteq> []"
    using ne by (cases ?t) auto
  then show ?thesis by (simp add: handler_params_first)
qed

lemma handler_useReferer_two:
  assumes "length (handler_params r) = 2"
  shows "length (handler_useReferer r) = 2"
  using assms
  by (simp add: handler_useReferer_cases SplitN_append_slash handler_params_cases split: if_splits)

lemma handler_params_root:
  "Trim (URL_Path r) ''/'' = [] \<Longrightarrow> handler_params r = [[]]"
  by (simp add: handler_params_cases)

lemma handler_root:
  assumes "Trim (URL_Path r) ''/'' = []"
  shows "handler env config assets r s = Redirect ''https://github.com/igrigorik/ga-beacon'' 302 s"
  by (simp add: handler_def Let_def handler_params_root [OF assms])

lemma handler_tracked:
  assumes "handler_params r ! 0 \<noteq> []" and "length (handler_useReferer r) \<noteq> 1"
  shows "handler env config assets r s =
     (case handler_cid env r (handler_useReferer r) s of
        (cid, s1) \<Rightarrow>
          handler_write assets (handler_query r)
            (if cid \<noteq> [] then
               snd (logHit env config (handler_useReferer r) (handler_query r)
                      (Header_Get r ''User-Agent'') (RemoteAddr r) cid
                      (Header_Set ''CID'' cid
                        (Header_Set ''Expires'' (time_HTTP env)
                          (Header_Set ''Cache-Control''
                             ''no-cache, no-store, must-revalidate, private'' s1))))
             else s1))"
  using assms by (simp add: handler_def Let_def split: prod.splits)

lemma handler_two:
  assumes "length (handler_params r) = 2"
  shows "handler env config assets r s =
     (case handler_cid env r (handler_useReferer r) s of
        (cid, s1) \<Rightarrow>
          handler_write assets (handler_query r)
            (if cid \<noteq> [] then
               snd (logHit env config (handler_useReferer r) (handler_query r)
                      (Header_Get r ''User-Agent'') (RemoteAddr r) cid
                      (Header_Set ''CID'' cid
                        (Header_Set ''Expires'' (time_HTTP env)
                          (Header_Set ''Cache-Control''
                             ''no-cache, no-store, must-revalidate, private'' s1))))
             else s1))"
  by (rule handler_tracked) (simp_all add: handler_params_two [OF assms] handler_useReferer_two [OF assms])

lemma handler_cid_cookie:
  "Request_Cookie r ''cid'' = Inr c \<Longrightarrow>
     handler_cid env r params s = (CookieValue c, log_Printf (''Existing CID found: '' @ CookieValue c) s)"
  by (simp add: handler_cid_def)

lemma handler_cid_fail:
  "Request_Cookie r ''cid'' = Inl e \<Longrightarrow> entropy env = Inl err \<Longrightarrow>
     handler_cid env r params s = ([], log_Printf (''Failed to generate client UUID: '' @ Error_msg err) s)"
  by (simp add: handler_cid_def generateUUID_Inl)

lemma handler_cid_new:
  "Request_Cookie r ''cid'' = Inl e \<Longrightarrow> generateUUID env [] = (None, cid) \<Longrightarrow>
     handler_cid env r params s =
       (cid, SetCookie \<lparr>CookieName = ''cid'', CookieValue = cid, CookiePath = ''/'' @ params ! 0\<rparr>
               (log_Printf (''Generated new client UUID: '' @ cid) s))"
  by (simp add: handler_cid_def)

lemma handler_cid_W_indep:
  "W (snd (handler_cid env r params s)) = W (snd (handler_cid env' r params s)) \<and>
   fst (handler_cid env r params s) = fst (handler_cid env' r params s)"
  if "entropy env = entropy env'"
  using that by (simp add: handler_cid_def generateUUID_def rand_Read_def split: sum.splits prod.splits option.splits)

lemma handler_write_spec:
  "Status (W s) = None \<Longrightarrow>
     Body (W (handler_write assets (handler_query r) s)) = Body (W s) @ [fst (spec_badge assets (fst ` set (URL_Query r)))] \<and>
     RespHeader (W (handler_write assets (handler_query r) s)) =
       (RespHeader (W s))(''Content-Type'' \<mapsto> snd (spec_badge assets (fst ` set (URL_Query r)))) \<and>
     Status (W (handler_write assets (handler_query r) s)) = Some 200"
  by (simp add: handler_write_def spec_badge_def has_key_handler_query)

lemma World0_simps [simp]:
  "RespHeader (W World0) = Map.empty" "RespCookies (W World0) = []" "Status (W World0) = None"
  "Body (W World0) = []" "Logged World0 = []" "Posted World0 = []" "Dispatched World0 = []"
  by (simp_all add: World0_def)

lemma handler_cid_frame:
  "Status (W s) = None \<Longrightarrow> Status (W (snd (handler_cid env r params s))) = None"
  "Body (W (snd (handler_cid env r params s))) = Body (W s)"
  "RespHeader (W (snd (handler_cid env r params s))) = RespHeader (W s)"
  "Dispatched (snd (handler_cid env r params s)) = Dispatched s"
  "Posted (snd (handler_cid env r params s)) = Posted s"
  by (simp_all add: handler_cid_def split: sum.splits prod.splits option.splits)

lemma handler_two_fields:
  assumes two: "length (handler_params r) = 2"
      and cid: "handler_cid env r (handler_useReferer r) World0 = (cid, s1)"
  shows "Body (W (handler env config assets r World0)) = [fst (spec_badge assets (fst ` set (URL_Query r)))]"
    and "Status (W (handler env config assets r World0)) = Some 200"
    and "RespHeader (W (handler env config assets r World0)) =
           (if cid \<noteq> [] then
              [''Cache-Control'' \<mapsto> ''no-cache, no-store, must-revalidate, private'',
               ''Expires'' \<mapsto> time_HTTP env, ''CID'' \<mapsto> cid]
            else Map.empty)(''Content-Type'' \<mapsto> snd (spec_badge assets (fst ` set (URL_Query r))))"
    and "RespCookies (W (handler env config assets r World0)) = RespCookies (W s1)"
    and "Dispatched (handler env config assets r World0) =
           (if cid \<noteq> [] then
              [logHit_payload env (handler_query r) (Header_Get r ''User-Agent'') (RemoteAddr r) cid]
            else [])"
proof -
  have s1: "s1 = snd (handler_cid env r (handler_useReferer r) World0)" by (simp add: cid)
  have st: "Status (W s1) = None" unfolding s1 by (simp add: handler_cid_frame)
  have bo: "Body (W s1) = []" unfolding s1 by (simp add: handler_cid_frame)
  have hd: "RespHeader (W s1) = Map.empty" unfolding s1 by (simp add: handler_cid_frame)
  have di: "Dispatched s1 = []" unfolding s1 by (simp add: handler_cid_frame)
  note h = handler_two [OF two, of env config assets World0, unfolded cid prod.case]
  show "Body (W (handler env config assets r World0)) = [fst (spec_badge assets (fst ` set (URL_Query r)))]"
    unfolding h using handler_write_spec st bo by simp
  show "Status (W (handler env config assets r World0)) = Some 200"
    unfolding h using handler_write_spec st by simp
  show "RespHeader (W (handler env config assets r World0)) =
           (if cid \<noteq> [] then
              [''Cache-Control'' \<mapsto> ''no-cache, no-store, must-revalidate, private'',
               ''Expires'' \<mapsto> time_HTTP env, ''CID'' \<mapsto> cid]
            else Map.empty)(''Content-Type'' \<mapsto> snd (spec_badge assets (fst ` set (URL_Query r))))"
    unfolding h using handler_write_spec st hd by simp
  show "RespCookies (W (handler env config assets r World0)) = RespCookies (W s1)"
    unfolding h by simp
  show "Dispatched (handler env config assets r World0) =
           (if cid \<noteq> [] then
              [logHit_payload env (handler_query r) (Header_Get r ''User-Agent'') (RemoteAddr r) cid]
            else [])"
    unfolding h using di by simp
qed

lemma example_request_fields:
  "URL_Path (example_request p q h c) = p" "URL_Query (example_request p q h c) = q"
  "ReqHeader (example_request p q h c) = h" "ReqCookies (example_request p q h c) = c"
  "RemoteAddr (example_request p q h c) = ''192.0.2.1:4711''"
  by (simp_all add: example_request_def)

lemma Redirect_fields:
  "Status (W s) = None \<Longrightarrow> Status (W (Redirect url code s)) = Some code"
  "Status (W s) = None \<Longrightarrow> RespHeader (W (Redirect url code s)) = (RespHeader (W s))(''Location'' \<mapsto> url)"
  "RespCookies (W (Redirect url code s)) = RespCookies (W s)"
  "Dispatched (Redirect url code s) = Dispatched s"
  "Posted (Redirect url code s) = Posted s"
  "Logged (Redirect url code s) = Logged s"
  by (simp_all add: Redirect_def)

lemma Request_Cookie_absent:
  "find (\<lambda>c. CookieName c = ''cid'') (ReqCookies r) = None \<Longrightarrow> Request_Cookie r ''cid'' = Inl ErrNoCookie"
  by (simp add: Request_Cookie_def)

lemma Request_Cookie_present:
  "find (\<lambda>c. CookieName c = ''cid'') (ReqCookies r) = Some c \<Longrightarrow> Request_Cookie r ''cid'' = Inr c"
  by (simp add: Request_Cookie_def)

section \<open>The referer as the page\<close>

text \<open>
  C10.  The \<open>useReferer\<close> rewrite keeps the account: the first segment after the rewrite
  is the first segment of the trimmed path, which is the trimmed path up to its first
  slash.  The referer can only change or extend the page segment.
\<close>

theorem useReferer_preserves_account:
  "handler_useReferer r \<noteq> [] \<and>
   handler_useReferer r ! 0 = handler_params r ! 0 \<and>
   handler_params r ! 0 = takeWhile (\<lambda>c. c \<noteq> CHR ''/'') (Trim (URL_Path r) ''/'')"
proof -
  have "handler_useReferer r \<noteq> []"
    by (simp add: handler_useReferer_cases SplitN_append_slash handler_params_cases)
  then show ?thesis
    by (simp only: handler_useReferer_first handler_params_first simp_thms)
qed

text \<open>
  C1.  The claim says what the handler is meant to do: with the query key
  \<open>useReferer\<close> and a non-empty Referer header, the page segment becomes the referer
  without its scheme prefix.  The handler misses it at two inputs.  It strips the scheme
  with \<open>strings.Replace\<close>, which removes the first \<open>http://\<close> wherever it stands,
  so the referer \<open>https://a.com/?u=http://b.com\<close> loses its inner \<open>http://\<close> as
  well as its scheme: the page segment is \<open>a.com/?u=b.com\<close> and not
  \<open>a.com/?u=http://b.com\<close>.  And it appends the referer to the whole trimmed path,
  although its own comment says that the path is ignored and the referer used instead, so
  for the path \<open>/acct/page\<close> and the referer \<open>http://a.com/x\<close> the page segment is
  \<open>page/a.com/x\<close> and not \<open>a.com/x\<close>.
\<close>

theorem useReferer_page_at_failing_inputs:
  "handler_useReferer
     (example_request ''/acct'' [(''useReferer'', [[]])]
        [''Referer'' \<mapsto> ''https://a.com/?u=http://b.com''] [])
     = [''acct'', ''a.com/?u=b.com'']
   \<and> spec_strip_scheme ''https://a.com/?u=http://b.com'' = ''a.com/?u=http://b.com''
   \<and> handler_useReferer
        (example_request ''/acct'' [(''useReferer'', [[]])]
           [''Referer'' \<mapsto> ''https://a.com/?u=http://b.com''] []) ! 1
       \<noteq> spec_strip_scheme ''https://a.com/?u=http://b.com''
   \<and> handler_useReferer
        (example_request ''/acct/page'' [(''useReferer'', [[]])]
           [''Referer'' \<mapsto> ''http://a.com/x''] [])
     = [''acct'', ''page/a.com/x'']
   \<and> spec_strip_scheme ''http://a.com/x'' = ''a.com/x''
   \<and> handler_useReferer
        (example_request ''/acct/page'' [(''useReferer'', [[]])]
           [''Referer'' \<mapsto> ''http://a.com/x''] []) ! 1
       \<noteq> spec_strip_scheme ''http://a.com/x''"
  by (simp add: handler_useReferer_def handler_referer_def handler_params_def handler_query_def
        example_request_def Header_Get_def has_key_def Trim_def Let_def spec_strip_scheme_def
        numeral_2_eq_2)

section \<open>The three branches of the handler\<close>

text \<open>
  C9.  A request whose trimmed path is empty is answered with a redirect of status 302
  to the home page of the project; no cookie is set, no payload is handed to the
  dispatcher and nothing is posted.
\<close>

theorem root_redirect:
  assumes "Trim (URL_Path r) ''/'' = []"
  shows "Status (W (handler env config assets r World0)) = Some 302
       \<and> RespHeader (W (handler env config assets r World0)) ''Location''
           = Some ''https://github.com/igrigorik/ga-beacon''
       \<and> RespCookies (W (handler env config assets r World0)) = []
       \<and> Dispatched (handler env config assets r World0) = []
       \<and> Posted (handler env config assets r World0) = []"
  by (simp add: handler_root [OF assms] Redirect_fields)

theorem root_redirect_witness:
  "Trim (URL_Path (example_request ''/'' [(''pixel'', [[]])] Map.empty [])) ''/'' = []
   \<and> Status (W (handler example_env example_config example_assets
                  (example_request ''/'' [(''pixel'', [[]])] Map.empty []) World0)) = Some 302
   \<and> RespCookies (W (handler example_env example_config example_assets
                  (example_request ''/'' [(''pixel'', [[]])] Map.empty []) World0)) = []
   \<and> Dispatched (handler example_env example_config example_assets
                  (example_request ''/'' [(''pixel'', [[]])] Map.empty []) World0) = []"
proof -
  have h: "Trim (URL_Path (example_request ''/'' [(''pixel'', [[]])] Map.empty [])) ''/'' = []"
    by (simp add: example_request_fields Trim_def)
  from root_redirect [OF h, of example_env example_config example_assets] h
  show ?thesis by simp
qed

text \<open>
  C3.  For a request whose trimmed path has two segments the handler writes the body
  exactly once, with status 200: the pixel, or the badge chosen by the first of the keys
  \<open>pixel\<close>, \<open>gif\<close>, \<open>flat\<close>, \<open>flat-gif\<close> that the query has, or the default badge,
  and the Content-Type header is the one of that choice.
\<close>

theorem badge_selection:
  assumes "length (handler_params r) = 2"
  shows "Body (W (handler env config assets r World0))
           = [fst (spec_badge assets (fst ` set (URL_Query r)))]
       \<and> RespHeader (W (handler env config assets r World0)) ''Content-Type''
           = Some (snd (spec_badge assets (fst ` set (URL_Query r))))
       \<and> Status (W (handler env config assets r World0)) = Some 200"
proof -
  obtain cid s1 where c: "handler_cid env r (handler_useReferer r) World0 = (cid, s1)"
    by (cases "handler_cid env r (handler_useReferer r) World0")
  show ?thesis
    by (simp add: handler_two_fields(1,2,3) [OF assms c])
qed

theorem badge_selection_witness:
  "length (handler_params (example_request ''/octocat/readme'' [(''gif'', [[]]), (''pixel'', [[]])] Map.empty [])) = 2
   \<and> Body (W (handler example_env example_config example_assets
         (example_request ''/octocat/readme'' [(''gif'', [[]]), (''pixel'', [[]])] Map.empty []) World0))
       = [pixel example_assets]
   \<and> RespHeader (W (handler example_env example_config example_assets
         (example_request ''/octocat/readme'' [(''gif'', [[]]), (''pixel'', [[]])] Map.empty []) World0))
         ''Content-Type'' = Some ''image/gif''
   \<and> length (handler_params (example_request ''/octocat/readme'' [(''flat-gif'', [[]])] Map.empty [])) = 2
   \<and> Body (W (handler example_env example_config example_assets
         (example_request ''/octocat/readme'' [(''flat-gif'', [[]])] Map.empty []) World0))
       = [badgeFlatGif example_assets]
   \<and> length (handler_params (example_request ''/octocat/readme'' [(''src'', [''x''])] Map.empty [])) = 2
   \<and> Body (W (handler example_env example_config example_assets
         (example_request ''/octocat/readme'' [(''src'', [''x''])] Map.empty []) World0))
       = [badge example_assets]
   \<and> RespHeader (W (handler example_env example_config example_assets
         (example_request ''/octocat/readme'' [(''src'', [''x''])] Map.empty []) World0))
         ''Content-Type'' = Some ''image/svg+xml''"
proof -
  have two: "length (handler_params (example_request ''/octocat/readme'' q Map.empty [])) = 2" for q
    by (simp add: example_request_def handler_params_def Trim_def numeral_2_eq_2)
  from badge_selection [OF two [of "[(''gif'', [[]]), (''pixel'', [[]])]"], of example_env example_config example_assets]
    badge_selection [OF two [of "[(''flat-gif'', [[]])]"], of example_env example_config example_assets]
    badge_selection [OF two [of "[(''src'', [''x''])]"], of example_env example_config example_assets]
  show ?thesis
    by (simp add: two spec_badge_def example_request_fields example_assets_def)
qed

text \<open>
  C8.  On a request of two segments without a \<open>cid\<close> cookie, a failure of the identity
  generator is only logged: no cookie is set, the only header of the response is the
  content type (so there is no CID, Cache-Control or Expires header), no payload is handed
  to the dispatcher, nothing is posted, and the selected pixel or badge is served.
\<close>

theorem identity_failure_non_fatal:
  assumes "length (handler_params r) = 2"
      and "find (\<lambda>c. CookieName c = ''cid'') (ReqCookies r) = None"
      and "entropy env = Inl err"
  shows "Logged (handler env config assets r World0)
           = [''Failed to generate client UUID: '' @ Error_msg err]
       \<and> RespCookies (W (handler env config assets r World0)) = []
       \<and> RespHeader (W (handler env config assets r World0))
           = [''Content-Type'' \<mapsto> snd (spec_badge assets (fst ` set (URL_Query r)))]
       \<and> Dispatched (handler env config assets r World0) = []
       \<and> Posted (handler env config assets r World0) = []
       \<and> Body (W (handler env config assets r World0))
           = [fst (spec_badge assets (fst ` set (URL_Query r)))]
       \<and> Status (W (handler env config assets r World0)) = Some 200"
proof -
  let ?s1 = "log_Printf (''Failed to generate client UUID: '' @ Error_msg err) World0"
  have c: "handler_cid env r (handler_useReferer r) World0 = ([], ?s1)"
    by (rule handler_cid_fail [OF Request_Cookie_absent [OF assms(2)] assms(3)])
  note f = handler_two_fields [OF assms(1) c, of config assets]
  have h: "handler env config assets r World0 = handler_write assets (handler_query r) ?s1"
    by (simp add: handler_two [OF assms(1)] c)
  have "Logged (handler env config assets r World0) = [''Failed to generate client UUID: '' @ Error_msg err]"
    unfolding h by simp
  moreover have "Posted (handler env config assets r World0) = []"
    unfolding h by simp
  ultimately show ?thesis using f by simp
qed

theorem identity_failure_non_fatal_witness:
  "length (handler_params (example_request ''/octocat/readme'' [(''flat'', [[]])] Map.empty [])) = 2
   \<and> find (\<lambda>c. CookieName c = ''cid'')
        (ReqCookies (example_request ''/octocat/readme'' [(''flat'', [[]])] Map.empty [])) = None
   \<and> entropy example_env_no_entropy = Inl (Error ''entropy source unavailable'')
   \<and> Logged (handler example_env_no_entropy example_config example_assets
         (example_request ''/octocat/readme'' [(''flat'', [[]])] Map.empty []) World0)
       = [''Failed to generate client UUID: entropy source unavailable'']
   \<and> RespCookies (W (handler example_env_no_entropy example_config example_assets
         (example_request ''/octocat/readme'' [(''flat'', [[]])] Map.empty []) World0)) = []
   \<and> Dispatched (handler example_env_no_entropy example_config example_assets
         (example_request ''/octocat/readme'' [(''flat'', [[]])] Map.empty []) World0) = []
   \<and> Body (W (handler example_env_no_entropy example_config example_assets
         (example_request ''/octocat/readme'' [(''flat'', [[]])] Map.empty []) World0))
       = [badgeFlat example_assets]"
proof -
  let ?r = "example_request ''/octocat/readme'' [(''flat'', [[]])] Map.empty []"
  have two: "length (handler_params ?r) = 2"
    by (simp add: example_request_def handler_params_def Trim_def numeral_2_eq_2)
  have nocookie: "find (\<lambda>c. CookieName c = ''cid'') (ReqCookies ?r) = None"
    by (simp add: example_request_def)
  have fail: "entropy example_env_no_entropy = Inl (Error ''entropy source unavailable'')"
    by (simp add: example_env_no_entropy_def)
  from identity_failure_non_fatal [OF two nocookie fail, of example_config example_assets]
  show ?thesis
    by (simp add: two nocookie fail spec_badge_def example_request_fields example_assets_def)
qed

section \<open>The event\<close>

lemma digit_char_value: "d < 10 \<Longrightarrow> of_char (digit_char d) - 48 = d \<and> digit_char d \<in> set ''0123456789''"
proof -
  assume "d < 10"
  then have "d \<in> {0, 1, 2, 3, 4, 5, 6, 7, 8, 9}" by auto
  then show ?thesis by (auto simp: digit_char_def)
qed

lemma decimal_value: "spec_decimal_value (decimal n) = n \<and> set (decimal n) \<subseteq> set ''0123456789''"
proof (induction n rule: decimal.induct)
  case (1 n)
  show ?case
  proof (cases "n < 10")
    case True
    then show ?thesis
      using digit_char_value [of n] by (simp add: decimal.simps [of n] spec_decimal_value_def)
  next
    case False
    have m: "n mod 10 < 10" by simp
    from 1 [OF False] digit_char_value [OF m] False show ?thesis
      by (simp add: decimal.simps [of n] spec_decimal_value_def)
  qed
qed

lemma FormatInt_nonneg:
  "0 \<le> i \<Longrightarrow> spec_decimal_value (FormatInt i) = nat i \<and> set (FormatInt i) \<subseteq> set ''0123456789''"
  using decimal_value [of "nat i"] by (simp add: FormatInt_def)

lemma isReservedParam_iff:
  "isReservedParam k \<longleftrightarrow> k \<in> {''referer'', ''pixel'', ''gif'', ''flat'', ''flat-gif'', ''useReferer''}"
  by (auto simp: isReservedParam_def reserved_def)

lemma fold_custom_Name: "Name (fold logHit_add_custom q e) = Name e"
  by (induction q arbitrary: e) (auto simp: logHit_add_custom_def)

lemma fold_custom_other:
  "(\<And>k vs. (k, vs) \<in> set q \<Longrightarrow> vs \<noteq> [] \<Longrightarrow> \<not> isReservedParam k \<Longrightarrow> k' \<noteq> ''custom_'' @ k) \<Longrightarrow>
     Params (fold logHit_add_custom q e) k' = Params e k'"
proof (induction q arbitrary: e)
  case Nil
  then show ?case by simp
next
  case (Cons a q)
  obtain k0 vs0 where a: "a = (k0, vs0)" by (cases a)
  have "Params (fold logHit_add_custom q (logHit_add_custom a e)) k' = Params (logHit_add_custom a e) k'"
    by (rule Cons.IH) (use Cons.prems in auto)
  also have "\<dots> = Params e k'"
    using Cons.prems [of k0 vs0] by (auto simp: a logHit_add_custom_def)
  finally show ?case by simp
qed

lemma fold_custom_hit:
  "distinct (map fst q) \<Longrightarrow> (k, vs) \<in> set q \<Longrightarrow> vs \<noteq> [] \<Longrightarrow> \<not> isReservedParam k \<Longrightarrow>
     Params (fold logHit_add_custom q e) (''custom_'' @ k) = Some (vs ! 0)"
proof (induction q arbitrary: e)
  case Nil
  then show ?case by simp
next
  case (Cons a q)
  show ?case
  proof (cases "a = (k, vs)")
    case True
    have notin: "k \<notin> fst ` set q" using Cons.prems(1) True by simp
    have "Params (fold logHit_add_custom q (logHit_add_custom a e)) (''custom_'' @ k)
            = Params (logHit_add_custom a e) (''custom_'' @ k)"
    proof (rule fold_custom_other)
      fix k1 vs1 assume "(k1, vs1) \<in> set q"
      then have "k1 \<noteq> k" using notin by force
      then show "''custom_'' @ k \<noteq> ''custom_'' @ k1" by simp
    qed
    also have "\<dots> = Some (vs ! 0)"
      using Cons.prems(3,4) by (simp add: True logHit_add_custom_def)
    finally show ?thesis by simp
  next
    case False
    then have "(k, vs) \<in> set q" using Cons.prems(2) by simp
    moreover have "distinct (map fst q)" using Cons.prems(1) by simp
    ultimately show ?thesis using Cons.IH Cons.prems(3,4) by simp
  qed
qed

lemma fold_custom_origin:
  assumes "distinct (map fst q)"
      and "Params (fold logHit_add_custom q e) (''custom_'' @ k) = Some v"
      and "Params e (''custom_'' @ k) = None"
  shows "\<not> isReservedParam k \<and> (\<exists>vs. (k, vs) \<in> set q \<and> vs \<noteq> [] \<and> v = vs ! 0)"
proof (cases "\<exists>vs. (k, vs) \<in> set q \<and> vs \<noteq> [] \<and> \<not> isReservedParam k")
  case True
  then obtain vs where vs: "(k, vs) \<in> set q" "vs \<noteq> []" "\<not> isReservedParam k" by blast
  from fold_custom_hit [OF assms(1) vs] assms(2) have "v = vs ! 0" by simp
  with vs show ?thesis by blast
next
  case False
  have "Params (fold logHit_add_custom q e) (''custom_'' @ k) = Params e (''custom_'' @ k)"
  proof (rule fold_custom_other)
    fix k1 vs1 assume "(k1, vs1) \<in> set q" "vs1 \<noteq> []" "\<not> isReservedParam k1"
    with False have "k1 \<noteq> k" by blast
    then show "''custom_'' @ k \<noteq> ''custom_'' @ k1" by simp
  qed
  with assms(2,3) show ?thesis by simp
qed

lemma fold_custom_dom:
  "k' \<in> dom (Params (fold logHit_add_custom q e)) \<Longrightarrow>
     k' \<in> dom (Params e) \<or> (\<exists>k. k' = ''custom_'' @ k)"
proof (induction q arbitrary: e)
  case Nil
  then show ?case by simp
next
  case (Cons a q)
  from Cons.prems have "k' \<in> dom (Params (fold logHit_add_custom q (logHit_add_custom a e)))"
    by simp
  then have "k' \<in> dom (Params (logHit_add_custom a e)) \<or> (\<exists>k. k' = ''custom_'' @ k)"
    by (rule Cons.IH)
  moreover have "dom (Params (logHit_add_custom a e)) \<subseteq> insert (''custom_'' @ fst a) (dom (Params e))"
    by (cases a) (auto simp: logHit_add_custom_def)
  ultimately show ?case by blast
qed

lemma fold_Write_frame:
  "Dispatched (fold Write chunks s) = Dispatched s" "Posted (fold Write chunks s) = Posted s"
  "RespCookies (W (fold Write chunks s)) = RespCookies (W s)"
  by (induction chunks arbitrary: s) simp_all

lemma http_Error_frame:
  "Dispatched (http_Error msg code s) = Dispatched s" "Posted (http_Error msg code s) = Posted s"
  "RespCookies (W (http_Error msg code s)) = RespCookies (W s)"
  by (simp_all add: http_Error_def)

lemma handler_account_page:
  assumes "handler_params r ! 0 \<noteq> []" and "length (handler_useReferer r) = 1"
  shows "Dispatched (handler env config assets r s) = Dispatched s"
    and "Posted (handler env config assets r s) = Posted s"
    and "RespCookies (W (handler env config assets r s)) = RespCookies (W s)"
  using assms
  by (simp_all add: handler_def Let_def fold_Write_frame http_Error_frame split: prod.splits option.splits)

lemma handler_Dispatched:
  "Dispatched (handler env config assets r World0) = [] \<or>
   (\<exists>cid. cid \<noteq> [] \<and> Dispatched (handler env config assets r World0) =
      [logHit_payload env (handler_query r) (Header_Get r ''User-Agent'') (RemoteAddr r) cid])"
proof (cases "handler_params r ! 0 = []")
  case True
  then show ?thesis by (simp add: handler_def Let_def Redirect_fields)
next
  case nonroot: False
  show ?thesis
  proof (cases "length (handler_useReferer r) = 1")
    case True
    then show ?thesis using handler_account_page(1) [OF nonroot True] by simp
  next
    case False
    obtain cid s1 where c: "handler_cid env r (handler_useReferer r) World0 = (cid, s1)"
      by (cases "handler_cid env r (handler_useReferer r) World0")
    have s1: "s1 = snd (handler_cid env r (handler_useReferer r) World0)" by (simp add: c)
    have di: "Dispatched s1 = []" unfolding s1 by (simp add: handler_cid_frame)
    show ?thesis
      unfolding handler_tracked [OF nonroot False] c prod.case using di by auto
  qed
qed

lemma logHit_payload_eq:
  "logHit_payload env q ua ip cid =
     \<lparr>ClientID = cid,
      Events = [fold logHit_add_custom q
                  \<lparr>Name = ''page_view'',
                   Params = [''session_id'' \<mapsto> generateSessionID env, ''user_agent'' \<mapsto> ua,
                             ''ip_address'' \<mapsto> ip, ''timestamp'' \<mapsto> time_RFC3339 env]\<rparr>]\<rparr>"
  by (simp add: logHit_payload_def Let_def)

lemma logHit_payload_event:
  "\<exists>ev. Events (logHit_payload env q ua ip cid) = [ev] \<and> Name ev = ''page_view''
       \<and> Params ev ''session_id'' = Some (FormatInt (time_Unix env))
       \<and> Params ev ''user_agent'' = Some ua
       \<and> Params ev ''ip_address'' = Some ip
       \<and> Params ev ''timestamp'' = Some (time_RFC3339 env)
       \<and> (\<forall>k \<in> dom (Params ev).
             k \<in> {''session_id'', ''user_agent'', ''ip_address'', ''timestamp''}
             \<or> (\<exists>key. k = ''custom_'' @ key))"
proof -
  let ?e0 = "\<lparr>Name = ''page_view'',
              Params = [''session_id'' \<mapsto> generateSessionID env, ''user_agent'' \<mapsto> ua,
                        ''ip_address'' \<mapsto> ip, ''timestamp'' \<mapsto> time_RFC3339 env]\<rparr>"
  let ?ev = "fold logHit_add_custom q ?e0"
  have ev: "Events (logHit_payload env q ua ip cid) = [?ev]" by (simp add: logHit_payload_eq)
  have name: "Name ?ev = ''page_view''" by (simp add: fold_custom_Name)
  have keep: "Params ?ev k = Params ?e0 k"
    if "k \<in> {''session_id'', ''user_agent'', ''ip_address'', ''timestamp''}" for k
    by (rule fold_custom_other) (use that in auto)
  have k1: "Params ?ev ''session_id'' = Some (FormatInt (time_Unix env))"
    by (subst keep) (simp_all add: generateSessionID_def)
  have k2: "Params ?ev ''user_agent'' = Some ua"
    by (subst keep) simp_all
  have k3: "Params ?ev ''ip_address'' = Some ip"
    by (subst keep) simp_all
  have k4: "Params ?ev ''timestamp'' = Some (time_RFC3339 env)"
    by (subst keep) simp_all
  have d: "\<forall>k \<in> dom (Params ?ev).
             k \<in> {''session_id'', ''user_agent'', ''ip_address'', ''timestamp''}
             \<or> (\<exists>key. k = ''custom_'' @ key)"
  proof
    fix k assume "k \<in> dom (Params ?ev)"
    then have "k \<in> dom (Params ?e0) \<or> (\<exists>key. k = ''custom_'' @ key)" by (rule fold_custom_dom)
    then show "k \<in> {''session_id'', ''user_agent'', ''ip_address'', ''timestamp''}
             \<or> (\<exists>key. k = ''custom_'' @ key)"
      by (auto split: if_splits)
  qed
  show ?thesis
    apply (rule exI [of _ ?ev])
    apply (intro conjI)
          apply (rule ev)
         apply (rule name)
        apply (rule k1)
       apply (rule k2)
      apply (rule k3)
     apply (rule k4)
    apply (rule d)
    done
qed

text \<open>
  C7.  Every payload handed to the dispatcher has exactly one event, named
  \<open>page_view\<close>.  Its parameters hold \<open>session_id\<close>, the Unix time in seconds as
  \<open>FormatInt\<close> renders it (for a time that is not negative: decimal digits whose value
  is that time), \<open>user_agent\<close>, the User-Agent header of the request, \<open>ip_address\<close>,
  the remote address, and \<open>timestamp\<close>, the time formatted with the RFC3339 layout;
  every other key of the parameters starts with \<open>custom_\<close>.
\<close>

theorem page_view_event:
  "\<forall>p \<in> set (Dispatched (handler env config assets r World0)).
     \<exists>ev. Events p = [ev] \<and> Name ev = ''page_view''
       \<and> Params ev ''session_id'' = Some (FormatInt (time_Unix env))
       \<and> (0 \<le> time_Unix env \<longrightarrow>
             set (FormatInt (time_Unix env)) \<subseteq> set ''0123456789''
             \<and> spec_decimal_value (FormatInt (time_Unix env)) = nat (time_Unix env))
       \<and> Params ev ''user_agent'' = Some (Header_Get r ''User-Agent'')
       \<and> Params ev ''ip_address'' = Some (RemoteAddr r)
       \<and> Params ev ''timestamp'' = Some (time_RFC3339 env)
       \<and> (\<forall>k \<in> dom (Params ev).
             k \<in> {''session_id'', ''user_agent'', ''ip_address'', ''timestamp''}
             \<or> (\<exists>key. k = ''custom_'' @ key))"
proof
  fix p assume p: "p \<in> set (Dispatched (handler env config assets r World0))"
  with handler_Dispatched [of env config assets r]
  obtain cid where "p = logHit_payload env (handler_query r) (Header_Get r ''User-Agent'') (RemoteAddr r) cid"
    by auto
  with logHit_payload_event [of env "handler_query r" "Header_Get r ''User-Agent''" "RemoteAddr r" cid]
    FormatInt_nonneg [of "time_Unix env"]
  show "\<exists>ev. Events p = [ev] \<and> Name ev = ''page_view''
       \<and> Params ev ''session_id'' = Some (FormatInt (time_Unix env))
       \<and> (0 \<le> time_Unix env \<longrightarrow>
             set (FormatInt (time_Unix env)) \<subseteq> set ''0123456789''
             \<and> spec_decimal_value (FormatInt (time_Unix env)) = nat (time_Unix env))
       \<and> Params ev ''user_agent'' = Some (Header_Get r ''User-Agent'')
       \<and> Params ev ''ip_address'' = Some (RemoteAddr r)
       \<and> Params ev ''timestamp'' = Some (time_RFC3339 env)
       \<and> (\<forall>k \<in> dom (Params ev).
             k \<in> {''session_id'', ''user_agent'', ''ip_address'', ''timestamp''}
             \<or> (\<exists>key. k = ''custom_'' @ key))"
    by blast
qed

lemma example_tracked_two: "length (handler_params example_tracked) = 2"
  by (simp add: example_tracked_def example_request_fields handler_params_def Trim_def numeral_2_eq_2)

lemma example_tracked_cookie:
  "find (\<lambda>c. CookieName c = ''cid'') (ReqCookies example_tracked)
     = Some \<lparr>CookieName = ''cid'', CookieValue = ''abc'', CookiePath = []\<rparr>"
  by (simp add: example_tracked_def example_request_fields)

lemma example_tracked_Dispatched:
  "Dispatched (handler env config assets example_tracked World0) =
     [logHit_payload env (handler_query example_tracked) ''curl/8'' ''192.0.2.1:4711'' ''abc'']"
proof -
  have c: "handler_cid env example_tracked (handler_useReferer example_tracked) World0
             = (''abc'', log_Printf (''Existing CID found: '' @ ''abc'') World0)"
    using handler_cid_cookie [OF Request_Cookie_present [OF example_tracked_cookie]] by simp
  have ua: "Header_Get example_tracked ''User-Agent'' = ''curl/8''"
    by (simp add: Header_Get_def example_tracked_def example_request_fields)
  have ip: "RemoteAddr example_tracked = ''192.0.2.1:4711''"
    by (simp add: example_tracked_def example_request_fields)
  show ?thesis
    using handler_two_fields(5) [OF example_tracked_two c] by (simp add: ua ip)
qed

theorem page_view_event_witness:
  "\<exists>p ev. Dispatched (handler example_env example_config example_assets example_tracked World0) = [p]
      \<and> Events p = [ev] \<and> Name ev = ''page_view''
      \<and> Params ev ''session_id'' = Some ''1730''
      \<and> Params ev ''user_agent'' = Some ''curl/8''
      \<and> Params ev ''ip_address'' = Some ''192.0.2.1:4711''
      \<and> Params ev ''timestamp'' = Some ''1970-01-01T00:28:50Z''"
proof -
  let ?p = "logHit_payload example_env (handler_query example_tracked) ''curl/8'' ''192.0.2.1:4711'' ''abc''"
  have d: "Dispatched (handler example_env example_config example_assets example_tracked World0) = [?p]"
    by (rule example_tracked_Dispatched)
  have ua: "Header_Get example_tracked ''User-Agent'' = ''curl/8''"
    by (simp add: Header_Get_def example_tracked_def example_request_fields)
  have ip: "RemoteAddr example_tracked = ''192.0.2.1:4711''"
    by (simp add: example_tracked_def example_request_fields)
  have t: "FormatInt (time_Unix example_env) = ''1730''"
    by (simp add: example_env_def FormatInt_def decimal.simps digit_char_def)
  have ts: "time_RFC3339 example_env = ''1970-01-01T00:28:50Z''"
    by (simp add: example_env_def)
  from page_view_event [of example_env example_config example_assets example_tracked]
  have "\<exists>ev. Events ?p = [ev] \<and> Name ev = ''page_view''
      \<and> Params ev ''session_id'' = Some ''1730''
      \<and> Params ev ''user_agent'' = Some ''curl/8''
      \<and> Params ev ''ip_address'' = Some ''192.0.2.1:4711''
      \<and> Params ev ''timestamp'' = Some ''1970-01-01T00:28:50Z''"
    unfolding d by (simp add: ua ip t ts) blast
  with d show ?thesis by blast
qed

lemma map_of_handler_query:
  "k \<noteq> ''referer'' \<Longrightarrow> map_of (handler_query r) k = map_of (URL_Query r) k"
  by (simp add: handler_query_def Let_def map_of_Values_Set)

text \<open>
  C2.  In every event handed to the dispatcher, none of the reserved keys \<open>referer\<close>,
  \<open>pixel\<close>, \<open>gif\<close>, \<open>flat\<close>, \<open>flat-gif\<close>, \<open>useReferer\<close> appears as a
  \<open>custom_\<close> parameter; every other key of the query that has a value appears as
  \<open>custom_\<close> followed by the key, with the first value of the key; and every
  \<open>custom_\<close> parameter comes from such a key.  The keys of the query are distinct, as
  the keys of a Go map are.
\<close>

theorem custom_parameters:
  assumes "distinct (map fst (URL_Query r))"
  shows "\<forall>p \<in> set (Dispatched (handler env config assets r World0)). \<forall>ev \<in> set (Events p).
           (\<forall>k \<in> {''referer'', ''pixel'', ''gif'', ''flat'', ''flat-gif'', ''useReferer''}.
               Params ev (''custom_'' @ k) = None)
         \<and> (\<forall>k vs. k \<notin> {''referer'', ''pixel'', ''gif'', ''flat'', ''flat-gif'', ''useReferer''} \<longrightarrow>
               map_of (URL_Query r) k = Some vs \<longrightarrow> vs \<noteq> [] \<longrightarrow>
               Params ev (''custom_'' @ k) = Some (vs ! 0))
         \<and> (\<forall>k v. Params ev (''custom_'' @ k) = Some v \<longrightarrow>
               k \<notin> {''referer'', ''pixel'', ''gif'', ''flat'', ''flat-gif'', ''useReferer''}
               \<and> (\<exists>vs. map_of (URL_Query r) k = Some vs \<and> vs \<noteq> [] \<and> v = vs ! 0))"
proof (intro ballI)
  fix p ev
  assume p: "p \<in> set (Dispatched (handler env config assets r World0))" and ev: "ev \<in> set (Events p)"
  let ?q = "handler_query r"
  let ?e0 = "\<lparr>Name = ''page_view'',
              Params = [''session_id'' \<mapsto> generateSessionID env,
                        ''user_agent'' \<mapsto> Header_Get r ''User-Agent'',
                        ''ip_address'' \<mapsto> RemoteAddr r, ''timestamp'' \<mapsto> time_RFC3339 env]\<rparr>"
  from p handler_Dispatched [of env config assets r]
  obtain cid where "p = logHit_payload env ?q (Header_Get r ''User-Agent'') (RemoteAddr r) cid"
    by auto
  with ev have e: "ev = fold logHit_add_custom ?q ?e0" by (simp add: logHit_payload_eq)
  have dq: "distinct (map fst ?q)" using assms by (rule distinct_handler_query)
  have none0: "Params ?e0 (''custom_'' @ k) = None" for k by simp
  have origin: "k \<notin> {''referer'', ''pixel'', ''gif'', ''flat'', ''flat-gif'', ''useReferer''}
               \<and> (\<exists>vs. map_of (URL_Query r) k = Some vs \<and> vs \<noteq> [] \<and> v = vs ! 0)"
    if "Params ev (''custom_'' @ k) = Some v" for k v
  proof -
    from fold_custom_origin [OF dq that [unfolded e] none0]
    obtain vs where nr: "\<not> isReservedParam k" and vs: "(k, vs) \<in> set ?q" "vs \<noteq> []" "v = vs ! 0"
      by blast
    from nr have k: "k \<notin> {''referer'', ''pixel'', ''gif'', ''flat'', ''flat-gif'', ''useReferer''}"
      by (simp add: isReservedParam_iff)
    then have "k \<noteq> ''referer''" by simp
    moreover have "map_of ?q k = Some vs" using dq vs(1) by simp
    ultimately have "map_of (URL_Query r) k = Some vs" by (simp add: map_of_handler_query)
    with k vs show ?thesis by blast
  qed
  have hit: "Params ev (''custom_'' @ k) = Some (vs ! 0)"
    if "k \<notin> {''referer'', ''pixel'', ''gif'', ''flat'', ''flat-gif'', ''useReferer''}"
      and "map_of (URL_Query r) k = Some vs" and "vs \<noteq> []" for k vs
  proof -
    from that(1) have nr: "\<not> isReservedParam k" by (simp add: isReservedParam_iff)
    from that(1) have "k \<noteq> ''referer''" by simp
    then have "map_of ?q k = Some vs" using that(2) by (simp add: map_of_handler_query)
    then have "(k, vs) \<in> set ?q" by (rule map_of_SomeD)
    from fold_custom_hit [OF dq this that(3) nr] show ?thesis by (simp only: e)
  qed
  have reserved_none: "Params ev (''custom_'' @ k) = None"
    if "k \<in> {''referer'', ''pixel'', ''gif'', ''flat'', ''flat-gif'', ''useReferer''}" for k
  proof (cases "Params ev (''custom_'' @ k)")
    case None
    then show ?thesis .
  next
    case (Some v)
    from origin [OF Some]
    have "k \<notin> {''referer'', ''pixel'', ''gif'', ''flat'', ''flat-gif'', ''useReferer''}" ..
    with that show ?thesis by (rule_tac notE)
  qed
  show "(\<forall>k \<in> {''referer'', ''pixel'', ''gif'', ''flat'', ''flat-gif'', ''useReferer''}.
               Params ev (''custom_'' @ k) = None)
         \<and> (\<forall>k vs. k \<notin> {''referer'', ''pixel'', ''gif'', ''flat'', ''flat-gif'', ''useReferer''} \<longrightarrow>
               map_of (URL_Query r) k = Some vs \<longrightarrow> vs \<noteq> [] \<longrightarrow>
               Params ev (''custom_'' @ k) = Some (vs ! 0))
         \<and> (\<forall>k v. Params ev (''custom_'' @ k) = Some v \<longrightarrow>
               k \<notin> {''referer'', ''pixel'', ''gif'', ''flat'', ''flat-gif'', ''useReferer''}
               \<and> (\<exists>vs. map_of (URL_Query r) k = Some vs \<and> vs \<noteq> [] \<and> v = vs ! 0))"
  proof (intro conjI ballI allI impI)
    fix k assume "k \<in> {''referer'', ''pixel'', ''gif'', ''flat'', ''flat-gif'', ''useReferer''}"
    then show "Params ev (''custom_'' @ k) = None" by (rule reserved_none)
  next
    fix k vs
    assume "k \<notin> {''referer'', ''pixel'', ''gif'', ''flat'', ''flat-gif'', ''useReferer''}"
      and "map_of (URL_Query r) k = Some vs" and "vs \<noteq> []"
    then show "Params ev (''custom_'' @ k) = Some (vs ! 0)" by (rule hit)
  next
    fix k v assume "Params ev (''custom_'' @ k) = Some v"
    from origin [OF this]
    show "k \<notin> {''referer'', ''pixel'', ''gif'', ''flat'', ''flat-gif'', ''useReferer''}" ..
  next
    fix k v assume "Params ev (''custom_'' @ k) = Some v"
    from origin [OF this]
    show "\<exists>vs. map_of (URL_Query r) k = Some vs \<and> vs \<noteq> [] \<and> v = vs ! 0" ..
  qed
qed

theorem custom_parameters_witness:
  "distinct (map fst (URL_Query example_tracked)) \<and>
   (\<exists>p ev. Dispatched (handler example_env example_config example_assets example_tracked World0) = [p]
      \<and> Events p = [ev]
      \<and> Params ev ''custom_src'' = Some ''newsletter''
      \<and> Params ev ''custom_flat'' = None
      \<and> Params ev ''custom_referer'' = None)"
proof -
  let ?p = "logHit_payload example_env (handler_query example_tracked) ''curl/8'' ''192.0.2.1:4711'' ''abc''"
  let ?R = "{''referer'', ''pixel'', ''gif'', ''flat'', ''flat-gif'', ''useReferer''}"
  have dist: "distinct (map fst (URL_Query example_tracked))"
    by (simp add: example_tracked_def example_request_fields)
  have d: "Dispatched (handler example_env example_config example_assets example_tracked World0) = [?p]"
    by (rule example_tracked_Dispatched)
  obtain ev where ev: "Events ?p = [ev]" by (simp add: logHit_payload_eq)
  have src: "map_of (URL_Query example_tracked) ''src'' = Some [''newsletter'']"
    by (simp add: example_tracked_def example_request_fields)
  have pin: "?p \<in> set (Dispatched (handler example_env example_config example_assets example_tracked World0))"
    by (simp only: d list.set insertI1)
  have evin: "ev \<in> set (Events ?p)" by (simp only: ev list.set insertI1)
  note all = custom_parameters [OF dist, of example_env example_config example_assets,
      THEN bspec, OF pin, THEN bspec, OF evin]
  have a: "''src'' \<notin> ?R" by simp
  have ne: "[''newsletter''] \<noteq> []" by simp
  have b: "''flat'' \<in> ?R" by simp
  have c: "''referer'' \<in> ?R" by simp
  have 1: "Params ev (''custom_'' @ ''src'') = Some ([''newsletter''] ! 0)"
    by (rule all [THEN conjunct2, THEN conjunct1, THEN spec, THEN spec, THEN mp, THEN mp, THEN mp,
          OF a src ne])
  have 2: "Params ev (''custom_'' @ ''flat'') = None"
    by (rule all [THEN conjunct1, THEN bspec, OF b])
  have 3: "Params ev (''custom_'' @ ''referer'') = None"
    by (rule all [THEN conjunct1, THEN bspec, OF c])
  from 1 have s1: "Params ev ''custom_src'' = Some ''newsletter''" by simp
  from 2 have s2: "Params ev ''custom_flat'' = None" by simp
  from 3 have s3: "Params ev ''custom_referer'' = None" by simp
  show ?thesis
    apply (rule conjI [OF dist])
    apply (rule exI [of _ ?p])
    apply (rule exI [of _ ev])
    apply (intro conjI d ev s1 s2 s3)
    done
qed

section \<open>The identity of the client\<close>

lemma ClientID_logHit_payload: "ClientID (logHit_payload env q ua ip cid) = cid"
  by (simp add: logHit_payload_eq)

text \<open>
  C5, amended.  On a request of two segments with a \<open>cid\<close> cookie no cookie is set,
  and the client ids of the payloads handed to the dispatcher are the value of the cookie
  alone when that value is not empty, and none when it is empty.  Without a \<open>cid\<close>
  cookie, and when the read of the entropy source succeeds, a new identity of 32 lowercase
  hexadecimal characters is generated, a \<open>cid\<close> cookie with that value and the path
  \<open>/\<close> followed by the account is set, and that value is the client id of the one
  payload handed to the dispatcher.
\<close>

theorem client_identity_lifecycle:
  assumes "length (handler_params r) = 2"
  shows "(\<forall>c. find (\<lambda>c. CookieName c = ''cid'') (ReqCookies r) = Some c \<longrightarrow>
            RespCookies (W (handler env config assets r World0)) = []
          \<and> map ClientID (Dispatched (handler env config assets r World0))
              = (if CookieValue c \<noteq> [] then [CookieValue c] else []))
       \<and> (\<forall>src. find (\<lambda>c. CookieName c = ''cid'') (ReqCookies r) = None \<and> entropy env = Inr src \<longrightarrow>
            (\<exists>cid. generateUUID env [] = (None, cid)
               \<and> length cid = 32 \<and> set cid \<subseteq> set ''0123456789abcdef''
               \<and> RespCookies (W (handler env config assets r World0))
                   = [\<lparr>CookieName = ''cid'', CookieValue = cid,
                       CookiePath = ''/'' @ handler_params r ! 0\<rparr>]
               \<and> map ClientID (Dispatched (handler env config assets r World0)) = [cid]))"
proof (intro conjI allI impI)
  fix c assume "find (\<lambda>c. CookieName c = ''cid'') (ReqCookies r) = Some c"
  then have rc: "Request_Cookie r ''cid'' = Inr c" by (rule Request_Cookie_present)
  let ?s1 = "log_Printf (''Existing CID found: '' @ CookieValue c) World0"
  have c: "handler_cid env r (handler_useReferer r) World0 = (CookieValue c, ?s1)"
    by (rule handler_cid_cookie [OF rc])
  note f = handler_two_fields(4,5) [OF assms c, of config assets]
  show "RespCookies (W (handler env config assets r World0)) = []"
    using f(1) by simp
  show "map ClientID (Dispatched (handler env config assets r World0))
              = (if CookieValue c \<noteq> [] then [CookieValue c] else [])"
    using f(2) by (simp add: ClientID_logHit_payload)
next
  fix src
  assume a: "find (\<lambda>c. CookieName c = ''cid'') (ReqCookies r) = None \<and> entropy env = Inr src"
  then have rc: "Request_Cookie r ''cid'' = Inl ErrNoCookie" by (simp add: Request_Cookie_absent)
  from a generateUUID_Inr_cid [of env src "[]"]
  obtain cid where g: "generateUUID env [] = (None, cid)" and l: "length cid = 32"
    and h: "set cid \<subseteq> set hextable" by blast
  let ?ck = "\<lparr>CookieName = ''cid'', CookieValue = cid,
              CookiePath = ''/'' @ handler_useReferer r ! 0\<rparr>"
  let ?s1 = "SetCookie ?ck (log_Printf (''Generated new client UUID: '' @ cid) World0)"
  have c: "handler_cid env r (handler_useReferer r) World0 = (cid, ?s1)"
    by (rule handler_cid_new [OF rc g])
  note f = handler_two_fields(4,5) [OF assms c, of config assets]
  have ne: "cid \<noteq> []" using l by auto
  have ck: "RespCookies (W (handler env config assets r World0))
              = [\<lparr>CookieName = ''cid'', CookieValue = cid, CookiePath = ''/'' @ handler_params r ! 0\<rparr>]"
    using f(1) by (simp add: handler_useReferer_first)
  have di: "map ClientID (Dispatched (handler env config assets r World0)) = [cid]"
    using f(2) ne by (simp add: ClientID_logHit_payload)
  have hx: "set cid \<subseteq> set ''0123456789abcdef''" using h by (simp only: hextable_def)
  show "\<exists>cid. generateUUID env [] = (None, cid)
               \<and> length cid = 32 \<and> set cid \<subseteq> set ''0123456789abcdef''
               \<and> RespCookies (W (handler env config assets r World0))
                   = [\<lparr>CookieName = ''cid'', CookieValue = cid,
                       CookiePath = ''/'' @ handler_params r ! 0\<rparr>]
               \<and> map ClientID (Dispatched (handler env config assets r World0)) = [cid]"
    apply (rule exI [of _ cid])
    apply (intro conjI g l hx ck di)
    done
qed

lemma example_untracked_two: "length (handler_params example_untracked) = 2"
  by (simp add: example_untracked_def example_request_fields handler_params_def Trim_def numeral_2_eq_2)

lemma example_untracked_cookie:
  "find (\<lambda>c. CookieName c = ''cid'') (ReqCookies example_untracked) = None"
  by (simp add: example_untracked_def example_request_fields)

text \<open>
  C5, as the specification states it, fails: a request of two segments without a \<open>cid\<close>
  cookie does not always get a new identity.  When the read of the entropy source fails,
  no identity is generated, no cookie is set and no payload is dispatched.
\<close>

theorem client_identity_lifecycle_counterexample:
  "length (handler_params example_untracked) = 2
   \<and> find (\<lambda>c. CookieName c = ''cid'') (ReqCookies example_untracked) = None
   \<and> generateUUID example_env_no_entropy [] = (Some (Error ''entropy source unavailable''), [])
   \<and> RespCookies (W (handler example_env_no_entropy example_config example_assets
                        example_untracked World0)) = []
   \<and> Dispatched (handler example_env_no_entropy example_config example_assets
                    example_untracked World0) = []"
proof -
  have fail: "entropy example_env_no_entropy = Inl (Error ''entropy source unavailable'')"
    by (simp add: example_env_no_entropy_def)
  let ?s1 = "log_Printf (''Failed to generate client UUID: '' @ Error_msg (Error ''entropy source unavailable'')) World0"
  have c: "handler_cid example_env_no_entropy example_untracked (handler_useReferer example_untracked) World0
            = ([], ?s1)"
    by (rule handler_cid_fail [OF Request_Cookie_absent [OF example_untracked_cookie] fail])
  note f = handler_two_fields(4,5) [OF example_untracked_two c, of example_config example_assets]
  have g: "generateUUID example_env_no_entropy [] = (Some (Error ''entropy source unavailable''), [])"
    by (rule generateUUID_Inl [OF fail])
  from f have ck: "RespCookies (W (handler example_env_no_entropy example_config example_assets
                        example_untracked World0)) = []" by simp
  from f have di: "Dispatched (handler example_env_no_entropy example_config example_assets
                    example_untracked World0) = []" by simp
  show ?thesis by (intro conjI example_untracked_two example_untracked_cookie g ck di)
qed

theorem client_identity_lifecycle_witness:
  "length (handler_params example_tracked) = 2
   \<and> RespCookies (W (handler example_env example_config example_assets example_tracked World0)) = []
   \<and> map ClientID (Dispatched (handler example_env example_config example_assets example_tracked World0))
        = [''abc'']
   \<and> length (handler_params example_untracked) = 2
   \<and> RespCookies (W (handler example_env example_config example_assets example_untracked World0))
        = [\<lparr>CookieName = ''cid'', CookieValue = ''00112233445546778899aabbccddeeff'',
            CookiePath = ''/octocat''\<rparr>]
   \<and> map ClientID (Dispatched (handler example_env example_config example_assets example_untracked World0))
        = [''00112233445546778899aabbccddeeff'']"
proof -
  have ok: "entropy example_env = Inr (\<lambda>i. of_nat (17 * i))"
    by (simp add: example_env_def)
  have run: "generateUUID example_env [] = (None, ''00112233445546778899aabbccddeeff'')"
    by (simp add: example_env_def generateUUID_def rand_Read_def hextable_def upt_rec
          drop_bit_eq_div)
  have acct: "handler_params example_untracked ! 0 = ''octocat''"
    by (simp add: example_untracked_def example_request_fields handler_params_def Trim_def numeral_2_eq_2)
  note t = client_identity_lifecycle [OF example_tracked_two, of example_env example_config example_assets]
  note u = client_identity_lifecycle [OF example_untracked_two, of example_env example_config example_assets]
  from t [THEN conjunct1, THEN spec, THEN mp, OF example_tracked_cookie]
  have 1: "RespCookies (W (handler example_env example_config example_assets example_tracked World0)) = []
      \<and> map ClientID (Dispatched (handler example_env example_config example_assets example_tracked World0))
        = [''abc'']"
    by simp
  from u [THEN conjunct2, THEN spec, THEN mp, OF conjI [OF example_untracked_cookie ok]]
  have 2: "RespCookies (W (handler example_env example_config example_assets example_untracked World0))
        = [\<lparr>CookieName = ''cid'', CookieValue = ''00112233445546778899aabbccddeeff'',
            CookiePath = ''/octocat''\<rparr>]
   \<and> map ClientID (Dispatched (handler example_env example_config example_assets example_untracked World0))
        = [''00112233445546778899aabbccddeeff'']"
    by (simp add: run acct)
  from 1 2 example_tracked_two example_untracked_two show ?thesis by simp
qed

section \<open>The outcome of the dispatch\<close>

lemma W_Header_Set:
  "W (Header_Set k v s) =
     (if Status (W s) = None then (W s)\<lparr>RespHeader := (RespHeader (W s))(k \<mapsto> v)\<rparr> else W s)"
  by (simp add: Header_Set_def)

lemma W_WriteHeader:
  "W (WriteHeader n s) = (if Status (W s) = None then (W s)\<lparr>Status := Some n\<rparr> else W s)"
  by (simp add: WriteHeader_def)

lemma W_Write:
  "W (Write b s) = (W (WriteHeader 200 s))\<lparr>Body := Body (W (WriteHeader 200 s)) @ [b]\<rparr>"
  by (simp add: Write_def Let_def)

lemma W_SetCookie:
  "W (SetCookie c s) =
     (if Status (W s) = None then (W s)\<lparr>RespCookies := RespCookies (W s) @ [c]\<rparr> else W s)"
  by (simp add: SetCookie_def)

lemma W_cong_Header_Set: "W s = W s' \<Longrightarrow> W (Header_Set k v s) = W (Header_Set k v s')"
  by (simp add: W_Header_Set)

lemma W_cong_Write: "W s = W s' \<Longrightarrow> W (Write b s) = W (Write b s')"
  by (simp add: W_Write W_WriteHeader)

lemma W_cong_handler_write:
  "W s = W s' \<Longrightarrow> W (handler_write assets q s) = W (handler_write assets q s')"
proof -
  assume e: "W s = W s'"
  have h: "W (Write b (Header_Set k v s)) = W (Write b (Header_Set k v s'))" for b k v
    by (rule W_cong_Write [OF W_cong_Header_Set [OF e]])
  show ?thesis by (simp add: handler_write_def h)
qed

lemma handler_cid_env:
  "entropy env' = entropy env \<Longrightarrow> handler_cid env' r params s = handler_cid env r params s"
proof -
  assume e: "entropy env' = entropy env"
  have g: "generateUUID env' [] = generateUUID env []"
    by (simp add: generateUUID_def rand_Read_def e)
  show ?thesis by (simp only: handler_cid_def g)
qed

lemma handler_account:
  assumes "handler_params r ! 0 \<noteq> []" and "length (handler_useReferer r) = 1"
  shows "handler env config assets r s =
     (case ExecuteTemplate env (handler_useReferer r ! 0) (Header_Get r ''Referer'') of
        (chunks, Some err) \<Rightarrow>
          log_Printf (''Cannot execute template: '' @ Error_msg err)
            (http_Error ''could not show account page'' 500 (fold Write chunks s))
      | (chunks, None) \<Rightarrow> fold Write chunks s)"
  using assms by (simp add: handler_def Let_def)

lemma handler_W_env:
  assumes "entropy env' = entropy env" and "time_HTTP env' = time_HTTP env"
      and "ExecuteTemplate env' = ExecuteTemplate env"
  shows "W (handler env' config assets r s) = W (handler env config assets r s)"
proof (cases "handler_params r ! 0 = []")
  case True
  then show ?thesis by (simp add: handler_def Let_def)
next
  case nonroot: False
  show ?thesis
  proof (cases "length (handler_useReferer r) = 1")
    case True
    show ?thesis
      by (simp only: handler_account [OF nonroot True] assms(3))
  next
    case False
    obtain cid s1 where c: "handler_cid env r (handler_useReferer r) s = (cid, s1)"
      by (cases "handler_cid env r (handler_useReferer r) s")
    have c': "handler_cid env' r (handler_useReferer r) s = (cid, s1)"
      using c handler_cid_env [OF assms(1)] by simp
    show ?thesis
      unfolding handler_tracked [OF nonroot False] c c' prod.case
      by (rule W_cong_handler_write) (simp add: assms(2))
  qed
qed

lemma handler_Posted_le: "length (Posted (handler env config assets r World0)) \<le> 1"
proof (cases "handler_params r ! 0 = []")
  case True
  then show ?thesis by (simp add: handler_def Let_def Redirect_fields)
next
  case nonroot: False
  show ?thesis
  proof (cases "length (handler_useReferer r) = 1")
    case True
    then show ?thesis using handler_account_page(2) [OF nonroot True] by simp
  next
    case False
    obtain cid s1 where c: "handler_cid env r (handler_useReferer r) World0 = (cid, s1)"
      by (cases "handler_cid env r (handler_useReferer r) World0")
    have s1: "s1 = snd (handler_cid env r (handler_useReferer r) World0)" by (simp add: c)
    have po: "Posted s1 = []" unfolding s1 by (simp add: handler_cid_frame)
    show ?thesis
      unfolding handler_tracked [OF nonroot False] c prod.case using po
      by (simp add: logHit_def sendToGA_Posted split: sum.splits)
  qed
qed

lemma sendToGA_marshal_error:
  assumes "json_Marshal env p = Inl err"
  shows "fst (sendToGA env config ua ip cid p s) = Some err"
    and "Logged (snd (sendToGA env config ua ip cid p s))
           = Logged s @ [''Error marshaling JSON: '' @ Error_msg err]"
    and "Posted (snd (sendToGA env config ua ip cid p s)) = Posted s"
  using assms by (simp_all add: sendToGA_def Let_def)

lemma sendToGA_post_error:
  assumes "json_Marshal env p = Inr js"
      and "client_Do env
             \<lparr>Method = ''POST'',
              URL = ''https://www.google-analytics.com/mp/collect?measurement_id=''
                     @ MeasurementID config @ ''&api_secret='' @ APISecret config,
              OutBody = js,
              OutHeader = [(''User-Agent'', ua), (''Content-Type'', ''application/json'')]\<rparr> = Inl err"
  shows "fst (sendToGA env config ua ip cid p s) = Some err"
    and "Logged (snd (sendToGA env config ua ip cid p s))
           = Logged s @ [''GA collector POST error: '' @ Error_msg err]"
    and "Posted (snd (sendToGA env config ua ip cid p s)) = Posted s @
           [\<lparr>Method = ''POST'',
              URL = ''https://www.google-analytics.com/mp/collect?measurement_id=''
                     @ MeasurementID config @ ''&api_secret='' @ APISecret config,
              OutBody = js,
              OutHeader = [(''User-Agent'', ua), (''Content-Type'', ''application/json'')]\<rparr>]"
  using assms by (simp_all add: sendToGA_def Let_def)

text \<open>
  C4.  The response writer after the handler is the same whatever \<open>json.Marshal\<close> and
  \<open>client.Do\<close> return, so the status, headers, cookies and body served do not depend on
  the outcome of the dispatch; for a request of two segments the selected pixel or badge
  is written with its content type.  The dispatcher logs a marshalling error and returns
  it without posting, logs an error of the POST and returns it after the one POST, and
  never touches the response; the handler posts at most once.
\<close>

theorem dispatch_outcome_invisible:
  "W (handler (env\<lparr>json_Marshal := m, client_Do := d\<rparr>) config assets r World0)
     = W (handler env config assets r World0)
   \<and> length (Posted (handler env config assets r World0)) \<le> 1
   \<and> (length (handler_params r) = 2 \<longrightarrow>
        Body (W (handler env config assets r World0))
          = [fst (spec_badge assets (fst ` set (URL_Query r)))]
        \<and> RespHeader (W (handler env config assets r World0)) ''Content-Type''
          = Some (snd (spec_badge assets (fst ` set (URL_Query r)))))
   \<and> (\<forall>err. json_Marshal env p = Inl err \<longrightarrow>
        fst (sendToGA env config ua ip cid p s) = Some err
        \<and> Logged (snd (sendToGA env config ua ip cid p s))
            = Logged s @ [''Error marshaling JSON: '' @ Error_msg err]
        \<and> Posted (snd (sendToGA env config ua ip cid p s)) = Posted s
        \<and> W (snd (sendToGA env config ua ip cid p s)) = W s)
   \<and> (\<forall>js err. json_Marshal env p = Inr js
          \<and> client_Do env
               \<lparr>Method = ''POST'',
                URL = ''https://www.google-analytics.com/mp/collect?measurement_id=''
                       @ MeasurementID config @ ''&api_secret='' @ APISecret config,
                OutBody = js,
                OutHeader = [(''User-Agent'', ua), (''Content-Type'', ''application/json'')]\<rparr>
              = Inl err \<longrightarrow>
        fst (sendToGA env config ua ip cid p s) = Some err
        \<and> Logged (snd (sendToGA env config ua ip cid p s))
            = Logged s @ [''GA collector POST error: '' @ Error_msg err]
        \<and> length (Posted (snd (sendToGA env config ua ip cid p s))) = length (Posted s) + 1
        \<and> W (snd (sendToGA env config ua ip cid p s)) = W s)"
proof (intro conjI allI impI)
  show "W (handler (env\<lparr>json_Marshal := m, client_Do := d\<rparr>) config assets r World0)
     = W (handler env config assets r World0)"
    by (rule handler_W_env) simp_all
  show "length (Posted (handler env config assets r World0)) \<le> 1"
    by (rule handler_Posted_le)
next
  assume two: "length (handler_params r) = 2"
  obtain c s1 where c: "handler_cid env r (handler_useReferer r) World0 = (c, s1)"
    by (cases "handler_cid env r (handler_useReferer r) World0")
  show "Body (W (handler env config assets r World0))
          = [fst (spec_badge assets (fst ` set (URL_Query r)))]"
    by (rule handler_two_fields(1) [OF two c])
  show "RespHeader (W (handler env config assets r World0)) ''Content-Type''
          = Some (snd (spec_badge assets (fst ` set (URL_Query r))))"
    by (simp add: handler_two_fields(3) [OF two c])
next
  fix err assume e: "json_Marshal env p = Inl err"
  show "fst (sendToGA env config ua ip cid p s) = Some err"
    by (rule sendToGA_marshal_error(1) [OF e])
  show "Logged (snd (sendToGA env config ua ip cid p s))
            = Logged s @ [''Error marshaling JSON: '' @ Error_msg err]"
    by (rule sendToGA_marshal_error(2) [OF e])
  show "Posted (snd (sendToGA env config ua ip cid p s)) = Posted s"
    by (rule sendToGA_marshal_error(3) [OF e])
  show "W (snd (sendToGA env config ua ip cid p s)) = W s"
    by (rule sendToGA_frame(1))
next
  fix js err
  assume a: "json_Marshal env p = Inr js
          \<and> client_Do env
               \<lparr>Method = ''POST'',
                URL = ''https://www.google-analytics.com/mp/collect?measurement_id=''
                       @ MeasurementID config @ ''&api_secret='' @ APISecret config,
                OutBody = js,
                OutHeader = [(''User-Agent'', ua), (''Content-Type'', ''application/json'')]\<rparr>
              = Inl err"
  note e = sendToGA_post_error [OF a [THEN conjunct1] a [THEN conjunct2], where cid = cid and s = s]
  show "fst (sendToGA env config ua ip cid p s) = Some err" by (rule e(1))
  show "Logged (snd (sendToGA env config ua ip cid p s))
            = Logged s @ [''GA collector POST error: '' @ Error_msg err]" by (rule e(2))
  show "length (Posted (snd (sendToGA env config ua ip cid p s))) = length (Posted s) + 1"
    by (simp add: e(3))
  show "W (snd (sendToGA env config ua ip cid p s)) = W s"
    by (rule sendToGA_frame(1))
qed

theorem dispatch_outcome_invisible_witness:
  "length (handler_params example_tracked) = 2
   \<and> W (handler example_env_post_fails example_config example_assets example_tracked World0)
       = W (handler example_env example_config example_assets example_tracked World0)
   \<and> W (handler example_env_marshal_fails example_config example_assets example_tracked World0)
       = W (handler example_env example_config example_assets example_tracked World0)
   \<and> Body (W (handler example_env_post_fails example_config example_assets example_tracked World0))
       = [badgeFlat example_assets]
   \<and> Body (W (handler example_env_marshal_fails example_config example_assets example_tracked World0))
       = [badgeFlat example_assets]
   \<and> fst (sendToGA example_env_post_fails example_config ''curl/8'' ''192.0.2.1:4711'' ''abc''
             \<lparr>ClientID = ''abc'', Events = []\<rparr> World0) = Some (Error ''timeout'')
   \<and> Logged (snd (sendToGA example_env_post_fails example_config ''curl/8'' ''192.0.2.1:4711'' ''abc''
             \<lparr>ClientID = ''abc'', Events = []\<rparr> World0)) = [''GA collector POST error: timeout'']
   \<and> length (Posted (snd (sendToGA example_env_post_fails example_config ''curl/8'' ''192.0.2.1:4711''
             ''abc'' \<lparr>ClientID = ''abc'', Events = []\<rparr> World0))) = 1
   \<and> fst (sendToGA example_env_marshal_fails example_config ''curl/8'' ''192.0.2.1:4711'' ''abc''
             \<lparr>ClientID = ''abc'', Events = []\<rparr> World0) = Some (Error ''unsupported type'')
   \<and> Logged (snd (sendToGA example_env_marshal_fails example_config ''curl/8'' ''192.0.2.1:4711'' ''abc''
             \<lparr>ClientID = ''abc'', Events = []\<rparr> World0))
       = [''Error marshaling JSON: unsupported type'']
   \<and> Posted (snd (sendToGA example_env_marshal_fails example_config ''curl/8'' ''192.0.2.1:4711'' ''abc''
             \<lparr>ClientID = ''abc'', Events = []\<rparr> World0)) = []"
proof -
  let ?p = "\<lparr>ClientID = ''abc'', Events = []\<rparr>"
  note two = example_tracked_two
  have keys: "fst ` set (URL_Query example_tracked) = {''flat'', ''src''}"
    by (simp add: example_tracked_def example_request_fields)
  have sel: "spec_badge example_assets (fst ` set (URL_Query example_tracked))
               = (badgeFlat example_assets, ''image/svg+xml'')"
    by (simp add: keys spec_badge_def)
  have mf: "json_Marshal example_env_marshal_fails ?p = Inl (Error ''unsupported type'')"
    by (simp add: example_env_marshal_fails_def)
  have pm: "json_Marshal example_env_post_fails ?p = Inr ''{}''"
    by (simp add: example_env_post_fails_def)
  have pf: "client_Do example_env_post_fails req = Inl (Error ''timeout'')" for req
    by (simp add: example_env_post_fails_def)
  note a = dispatch_outcome_invisible [where env = example_env and m = "\<lambda>p. Inr ''{}''"
      and d = "\<lambda>req. Inl (Error ''timeout'')" and config = example_config
      and assets = example_assets and r = example_tracked,
      folded example_env_post_fails_def]
  note b = dispatch_outcome_invisible [where env = example_env
      and m = "\<lambda>p. Inl (Error ''unsupported type'')"
      and d = "\<lambda>req. Inr ''204 No Content''" and config = example_config
      and assets = example_assets and r = example_tracked,
      folded example_env_marshal_fails_def]
  note c = dispatch_outcome_invisible [where env = example_env_post_fails and config = example_config
      and assets = example_assets and r = example_tracked and p = ?p and ua = "''curl/8''"
      and ip = "''192.0.2.1:4711''" and cid = "''abc''" and s = World0]
  note d = dispatch_outcome_invisible [where env = example_env_marshal_fails and config = example_config
      and assets = example_assets and r = example_tracked and p = ?p and ua = "''curl/8''"
      and ip = "''192.0.2.1:4711''" and cid = "''abc''" and s = World0]
  have 1: "W (handler example_env_post_fails example_config example_assets example_tracked World0)
       = W (handler example_env example_config example_assets example_tracked World0)"
    by (rule a [THEN conjunct1])
  have 2: "W (handler example_env_marshal_fails example_config example_assets example_tracked World0)
       = W (handler example_env example_config example_assets example_tracked World0)"
    by (rule b [THEN conjunct1])
  from c [THEN conjunct2, THEN conjunct2, THEN conjunct1, THEN mp, OF two]
  have 3: "Body (W (handler example_env_post_fails example_config example_assets example_tracked World0))
       = [badgeFlat example_assets]"
    by (simp add: sel)
  from d [THEN conjunct2, THEN conjunct2, THEN conjunct1, THEN mp, OF two]
  have 4: "Body (W (handler example_env_marshal_fails example_config example_assets example_tracked World0))
       = [badgeFlat example_assets]"
    by (simp add: sel)
  from c [THEN conjunct2, THEN conjunct2, THEN conjunct2, THEN conjunct2, THEN spec, THEN spec, THEN mp,
      OF conjI [OF pm pf]]
  have 5: "fst (sendToGA example_env_post_fails example_config ''curl/8'' ''192.0.2.1:4711'' ''abc'' ?p World0)
             = Some (Error ''timeout'')
        \<and> Logged (snd (sendToGA example_env_post_fails example_config ''curl/8'' ''192.0.2.1:4711'' ''abc''
             ?p World0)) = [''GA collector POST error: timeout'']
        \<and> length (Posted (snd (sendToGA example_env_post_fails example_config ''curl/8'' ''192.0.2.1:4711''
             ''abc'' ?p World0))) = 1"
    by simp
  from d [THEN conjunct2, THEN conjunct2, THEN conjunct2, THEN conjunct1, THEN spec, THEN mp, OF mf]
  have 6: "fst (sendToGA example_env_marshal_fails example_config ''curl/8'' ''192.0.2.1:4711'' ''abc'' ?p World0)
             = Some (Error ''unsupported type'')
        \<and> Logged (snd (sendToGA example_env_marshal_fails example_config ''curl/8'' ''192.0.2.1:4711'' ''abc''
             ?p World0)) = [''Error marshaling JSON: unsupported type'']
        \<and> Posted (snd (sendToGA example_env_marshal_fails example_config ''curl/8'' ''192.0.2.1:4711'' ''abc''
             ?p World0)) = []"
    by simp
  from two 1 2 3 4 5 6 show ?thesis by (intro conjI) (erule conjunct1 conjunct2 | assumption | simp)+
qed

end
